theory Spec2Isabelle
  imports Complex_Main
begin

section \<open>Strings\<close>

text \<open>
  Go strings are byte sequences and are modelled as \<open>string\<close> (a list of 8-bit
  characters). JavaScript strings are sequences of UTF-16 code units; the model covers
  the strings whose code units are below 256, one \<open>char\<close> each. The characters an
  Isabelle literal cannot hold are named here.
\<close>

definition nl :: string where
  "nl = [CHR 0x0A]"

definition dq :: string where
  "dq = [CHR 0x22]"

text \<open>\<open>has_prefix s p\<close>: the text \<open>s\<close> starts with \<open>p\<close>.\<close>

fun has_prefix :: "string \<Rightarrow> string \<Rightarrow> bool" where
  "has_prefix s [] = True"
| "has_prefix [] (p # ps) = False"
| "has_prefix (c # cs) (p # ps) = (c = p \<and> has_prefix cs ps)"

text \<open>\<^verbatim>\<open>strings.Contains(s, substr)\<close> of the Go library: \<open>substr\<close> occurs at some position.\<close>

fun strings_Contains :: "string \<Rightarrow> string \<Rightarrow> bool" where
  "strings_Contains [] substr = (substr = [])"
| "strings_Contains (c # cs) substr =
     (has_prefix (c # cs) substr \<or> strings_Contains cs substr)"

text \<open>
  \<^verbatim>\<open>strings.ToLower\<close> on ASCII text. The only call site lowers a key of the template
  table, and those keys are ASCII.
\<close>

definition toLowerASCII :: "char \<Rightarrow> char" where
  "toLowerASCII c =
     (let n = (of_char c :: nat) in if 65 \<le> n \<and> n \<le> 90 then char_of (n + 32) else c)"

definition strings_ToLower :: "string \<Rightarrow> string" where
  "strings_ToLower s = map toLowerASCII s"

text \<open>\<^verbatim>\<open>fmt.Sprintf("%d", n)\<close> for a non-negative \<open>n\<close>.\<close>

definition digit_char :: "nat \<Rightarrow> char" where
  "digit_char d = char_of (48 + d)"

fun itoa :: "nat \<Rightarrow> string" where
  "itoa n = (if n < 10 then [digit_char n] else itoa (n div 10) @ [digit_char (n mod 10)])"

declare itoa.simps [simp del]

section \<open>The Go SDK: tool results and parameters (sdks/go/mcp.go)\<close>

text \<open>
  \<^verbatim>\<open>map[string]interface{}\<close>: the dynamic values a caller can put under a key. The
  type assertions of the tools only tell a \<^verbatim>\<open>string\<close> and a \<^verbatim>\<open>[]string\<close> from
  everything else.
\<close>

datatype go_value =
    GoNil
  | GoBool bool
  | GoInt int
  | GoString string
  | GoStrings "string list"
  | GoAnys "go_value list"

type_synonym go_params = "string \<rightharpoonup> go_value"

text \<open>\<^verbatim>\<open>v, _ := params[k].(string)\<close>: the zero value when the key is missing or holds
  another type.\<close>

definition assertString :: "go_value option \<Rightarrow> string" where
  "assertString v = (case v of Some (GoString s) \<Rightarrow> s | _ \<Rightarrow> [])"

text \<open>\<^verbatim>\<open>v, _ := params[k].([]string)\<close>: the nil slice (no elements) otherwise.\<close>

definition assertStrings :: "go_value option \<Rightarrow> string list" where
  "assertStrings v = (case v of Some (GoStrings xs) \<Rightarrow> xs | _ \<Rightarrow> [])"

record issue =
  issue_type :: string
  severity :: string
  message :: string

record suggestion =
  suggestion_type :: string
  suggestion_text :: string
  impact :: string
  gas_saved :: string

record oz_data =
  contract_type :: string
  import_lines :: "string list"
  features :: "string list"
  template :: string
  documentation :: string

record audit_data =
  issues :: "issue list"
  score :: int
  recommendations :: "string list"

record gas_data =
  suggestions :: "suggestion list"
  estimated_total_savings :: string
  optimization_score :: int

text \<open>The \<^verbatim>\<open>Data interface{}\<close> field: nil, or the map one of the three tools builds.\<close>

datatype tool_data =
    NoData
  | OZData oz_data
  | AuditData audit_data
  | GasData gas_data

record MCPToolResult =
  Success :: bool
  Data :: tool_data
  Error :: string
  Metadata :: "(string \<times> go_value) list"

record MCPTool =
  Name :: string
  Description :: string
  Execute :: "go_params \<Rightarrow> MCPToolResult"

subsection \<open>OpenZeppelinTool\<close>

record contractTemplate =
  Base :: string
  Features :: "string list"
  Template :: string

definition ERC20_Template :: string where
  "ERC20_Template =
     ''pragma solidity ^0.8.0;'' @ nl @
     nl @
     ''import '' @ dq @ ''{base}'' @ dq @ '';'' @ nl @
     ''{imports}'' @ nl @
     nl @
     ''contract {name} is ERC20{features} {'' @ nl @
     ''    constructor() ERC20('' @ dq @ ''{token_name}'' @ dq @ '', '' @ dq @ ''{symbol}'' @ dq @ '') {'' @ nl @
     ''        {constructor_body}'' @ nl @
     ''    }'' @ nl @
     ''    '' @ nl @
     ''    {functions}'' @ nl @
     ''}''"

definition ERC20_contract :: contractTemplate where
  "ERC20_contract =
     \<lparr>Base = ''@openzeppelin/contracts/token/ERC20/ERC20.sol'',
      Features = [''Mintable'', ''Burnable'', ''Pausable'', ''Snapshot'', ''Permit''],
      Template = ERC20_Template\<rparr>"

definition ERC721_contract :: contractTemplate where
  "ERC721_contract =
     \<lparr>Base = ''@openzeppelin/contracts/token/ERC721/ERC721.sol'',
      Features = [''Enumerable'', ''URIStorage'', ''Burnable'', ''Pausable''],
      Template = ''// ERC721 template''\<rparr>"

definition ERC1155_contract :: contractTemplate where
  "ERC1155_contract =
     \<lparr>Base = ''@openzeppelin/contracts/token/ERC1155/ERC1155.sol'',
      Features = [''Supply'', ''Burnable'', ''Pausable'', ''URIStorage''],
      Template = ''// ERC1155 template''\<rparr>"

text \<open>The table \<^verbatim>\<open>NewOpenZeppelinTool\<close> fills.\<close>

definition contracts :: "string \<rightharpoonup> contractTemplate" where
  "contracts =
     [''ERC20'' \<mapsto> ERC20_contract, ''ERC721'' \<mapsto> ERC721_contract,
      ''ERC1155'' \<mapsto> ERC1155_contract]"

text \<open>The helper \<^verbatim>\<open>contains(slice, item)\<close>.\<close>

fun contains :: "string list \<Rightarrow> string \<Rightarrow> bool" where
  "contains [] item = False"
| "contains (s # slice) item = (if s = item then True else contains slice item)"

text \<open>
  The loop over the requested features: a feature the template lists adds an import
  line and is echoed back, any other is dropped. The state is the pair
  \<open>(imports, validFeatures)\<close>.
\<close>

fun collectFeatures ::
  "contractTemplate \<Rightarrow> string \<Rightarrow> string list \<Rightarrow> string list \<times> string list
     \<Rightarrow> string list \<times> string list" where
  "collectFeatures tmpl contractType [] acc = acc"
| "collectFeatures tmpl contractType (feature # rest) (imps, valid) =
     (if contains (Features tmpl) feature
      then collectFeatures tmpl contractType rest
             (imps @ [''import '' @ dq @ ''@openzeppelin/contracts/token/'' @ contractType
                        @ ''/extensions/'' @ contractType @ feature @ ''.sol'' @ dq @ '';''],
              valid @ [feature])
      else collectFeatures tmpl contractType rest (imps, valid))"

definition OpenZeppelinTool_Execute ::
  "(string \<rightharpoonup> contractTemplate) \<Rightarrow> go_params \<Rightarrow> MCPToolResult" where
  "OpenZeppelinTool_Execute table params =
     (let contractType0 = assertString (params ''contract_type'');
          contractType = (if contractType0 = [] then ''ERC20'' else contractType0);
          feats = assertStrings (params ''features'')
      in case table contractType of
           None \<Rightarrow>
             \<lparr>Success = False, Data = NoData,
              Error = ''Unknown contract type: '' @ contractType, Metadata = []\<rparr>
         | Some tmpl \<Rightarrow>
             (let (imps, valid) =
                    collectFeatures tmpl contractType feats
                      ([''import '' @ dq @ Base tmpl @ dq @ '';''], [])
              in \<lparr>Success = True,
                  Data = OZData
                    \<lparr>contract_type = contractType, import_lines = imps, features = valid,
                     template = Template tmpl,
                     documentation =
                       ''https://docs.openzeppelin.com/contracts/4.x/api/token/''
                         @ strings_ToLower contractType\<rparr>,
                  Error = [], Metadata = []\<rparr>))"

definition NewOpenZeppelinTool :: MCPTool where
  "NewOpenZeppelinTool =
     \<lparr>Name = ''openzeppelin_contracts'',
      Description = ''Access secure, audited smart contract templates from OpenZeppelin'',
      Execute = OpenZeppelinTool_Execute contracts\<rparr>"

subsection \<open>SecurityAuditTool\<close>

fun getSecurityRecommendations :: "issue list \<Rightarrow> string list" where
  "getSecurityRecommendations [] = []"
| "getSecurityRecommendations (i # rest) =
     (if issue_type i = ''reentrancy''
        then [''Use checks-effects-interactions pattern or ReentrancyGuard'']
      else if issue_type i = ''access_control''
        then [''Use msg.sender for authentication instead of tx.origin'']
      else if issue_type i = ''timestamp_dependence''
        then [''Avoid using block.timestamp for critical logic'']
      else if issue_type i = ''delegatecall''
        then [''Ensure delegatecall targets are trusted and immutable'']
      else [])
     @ getSecurityRecommendations rest"

definition reentrancy_issue :: issue where
  "reentrancy_issue =
     \<lparr>issue_type = ''reentrancy'', severity = ''high'',
      message = ''Potential reentrancy vulnerability detected''\<rparr>"

definition access_control_issue :: issue where
  "access_control_issue =
     \<lparr>issue_type = ''access_control'', severity = ''medium'',
      message = ''tx.origin used for authentication''\<rparr>"

definition timestamp_issue :: issue where
  "timestamp_issue =
     \<lparr>issue_type = ''timestamp_dependence'', severity = ''low'',
      message = ''Block timestamp used, can be manipulated by miners''\<rparr>"

definition delegatecall_issue :: issue where
  "delegatecall_issue =
     \<lparr>issue_type = ''delegatecall'', severity = ''high'',
      message = ''Delegatecall usage detected, ensure target is trusted''\<rparr>"

text \<open>The four checks, in the order of the source; each appends at most one issue.\<close>

definition scanSolidity :: "string \<Rightarrow> issue list" where
  "scanSolidity code =
     (if strings_Contains code ''call.value'' \<or> strings_Contains code ''.call{value:''
        then [reentrancy_issue] else [])
     @ (if strings_Contains code ''tx.origin'' then [access_control_issue] else [])
     @ (if strings_Contains code ''block.timestamp'' then [timestamp_issue] else [])
     @ (if strings_Contains code ''delegatecall'' then [delegatecall_issue] else [])"

text \<open>
  \<^verbatim>\<open>score := 100 - len(issues)*20; if score < 0 { score = 0 }\<close>. At most four issues
  exist, so the machine \<^verbatim>\<open>int\<close> never wraps and is modelled as \<open>int\<close>.
\<close>

definition SecurityAuditTool_Execute :: "go_params \<Rightarrow> MCPToolResult" where
  "SecurityAuditTool_Execute params =
     (let code = assertString (params ''code'');
          language0 = assertString (params ''language'');
          language = (if language0 = [] then ''solidity'' else language0);
          found = (if language = ''solidity'' then scanSolidity code else []);
          score0 = 100 - int (length found) * 20;
          score1 = (if score0 < 0 then 0 else score0)
      in \<lparr>Success = True,
          Data = AuditData
            \<lparr>issues = found, score = score1,
             recommendations = getSecurityRecommendations found\<rparr>,
          Error = [], Metadata = []\<rparr>)"

definition NewSecurityAuditTool :: MCPTool where
  "NewSecurityAuditTool =
     \<lparr>Name = ''security_audit'',
      Description = ''Automated security checks and vulnerability detection'',
      Execute = SecurityAuditTool_Execute\<rparr>"

subsection \<open>GasOptimizationTool\<close>

definition scanGas :: "string \<Rightarrow> suggestion list" where
  "scanGas code =
     (if strings_Contains code ''string '' \<and> \<not> strings_Contains code ''string memory''
        then [\<lparr>suggestion_type = ''storage'',
               suggestion_text = ''Consider using bytes32 for fixed-length strings'',
               impact = ''high'', gas_saved = ''~2000 per storage slot''\<rparr>] else [])
     @ (if strings_Contains code ''for ('' \<and> strings_Contains code ''.length''
        then [\<lparr>suggestion_type = ''loops'',
               suggestion_text = ''Cache array length outside the loop'',
               impact = ''medium'', gas_saved = ''~100 per iteration''\<rparr>] else [])
     @ (if strings_Contains code ''i++''
        then [\<lparr>suggestion_type = ''loops'',
               suggestion_text = ''Use ++i instead of i++ in loops'',
               impact = ''low'', gas_saved = ''~5 per iteration''\<rparr>] else [])
     @ (if strings_Contains code ''public'' \<and> \<not> strings_Contains code ''external''
        then [\<lparr>suggestion_type = ''functions'',
               suggestion_text =
                 ''Use external instead of public for functions not called internally'',
               impact = ''medium'', gas_saved = ''~200 per call''\<rparr>] else [])
     @ (if strings_Contains code ''storage'' \<and> strings_Contains code ''=''
        then [\<lparr>suggestion_type = ''storage'',
               suggestion_text = ''Minimize storage writes, batch updates when possible'',
               impact = ''high'', gas_saved = ''~5000-20000 per storage slot''\<rparr>] else [])"

definition GasOptimizationTool_Execute :: "go_params \<Rightarrow> MCPToolResult" where
  "GasOptimizationTool_Execute params =
     (let code = assertString (params ''code'');
          found = scanGas code;
          estimatedSavings = length found * 1000;
          score0 = 100 - int (length found) * 10;
          optimizationScore = (if score0 < 0 then 0 else score0)
      in \<lparr>Success = True,
          Data = GasData
            \<lparr>suggestions = found,
             estimated_total_savings = itoa estimatedSavings @ '' gas'',
             optimization_score = optimizationScore\<rparr>,
          Error = [], Metadata = []\<rparr>)"

definition NewGasOptimizationTool :: MCPTool where
  "NewGasOptimizationTool =
     \<lparr>Name = ''gas_optimization'',
      Description = ''Analyze and optimize gas consumption'',
      Execute = GasOptimizationTool_Execute\<rparr>"

subsection \<open>MCPToolRegistry\<close>

type_synonym MCPToolRegistry = "string \<rightharpoonup> MCPTool"

definition Register :: "MCPToolRegistry \<Rightarrow> MCPTool \<Rightarrow> MCPToolRegistry" where
  "Register r tool = r(Name tool \<mapsto> tool)"

definition Get :: "MCPToolRegistry \<Rightarrow> string \<Rightarrow> MCPTool option" where
  "Get r name = r name"

definition NewMCPToolRegistry :: MCPToolRegistry where
  "NewMCPToolRegistry =
     Register (Register (Register Map.empty NewOpenZeppelinTool) NewSecurityAuditTool)
       NewGasOptimizationTool"

definition Registry_Execute :: "MCPToolRegistry \<Rightarrow> string \<Rightarrow> go_params \<Rightarrow> MCPToolResult" where
  "Registry_Execute r toolName params =
     (case Get r toolName of
        None \<Rightarrow>
          \<lparr>Success = False, Data = NoData, Error = ''Tool not found: '' @ toolName,
           Metadata = []\<rparr>
      | Some tool \<Rightarrow> Execute tool params)"

section \<open>The TypeScript core (packages/core/src)\<close>

subsection \<open>JavaScript values, errors and built-ins\<close>

text \<open>
  The values of type \<^verbatim>\<open>any\<close> a tool can return. Numbers are restricted to integers
  (so \<^verbatim>\<open>NaN\<close> is absent); an object is its list of own properties.
\<close>

datatype js_value =
    JUndefined
  | JNull
  | JBool bool
  | JNum int
  | JStr string
  | JObj "(string \<times> js_value) list"

text \<open>The test \<^verbatim>\<open>if (v)\<close>: every object is truthy, whatever it holds.\<close>

fun truthy :: "js_value \<Rightarrow> bool" where
  "truthy JUndefined = False"
| "truthy JNull = False"
| "truthy (JBool b) = b"
| "truthy (JNum n) = (n \<noteq> 0)"
| "truthy (JStr s) = (s \<noteq> [])"
| "truthy (JObj kvs) = True"

text \<open>
  A property read \<^verbatim>\<open>v.k\<close> for a name \<open>k\<close> that no prototype defines (here \<^verbatim>\<open>tool\<close>
  and \<^verbatim>\<open>data\<close>): the own property, else \<^verbatim>\<open>undefined\<close>. It is only applied to truthy
  values, on which a property read does not throw.
\<close>

fun get_prop :: "js_value \<Rightarrow> string \<Rightarrow> js_value" where
  "get_prop (JObj kvs) k = (case map_of kvs k of Some v \<Rightarrow> v | None \<Rightarrow> JUndefined)"
| "get_prop v k = JUndefined"

text \<open>\<^verbatim>\<open>throw new Error(msg)\<close>; a rejected promise is the same value.\<close>

datatype js_error = JsError string

text \<open>
  Built-ins of the JavaScript runtime the code relies on, taken as parameters:
  \<^item> \<open>inherited\<close>: the members every object literal inherits from
    \<^verbatim>\<open>Object.prototype\<close> (\<^verbatim>\<open>constructor\<close>, \<^verbatim>\<open>toString\<close>, ...), each with the text a
    template literal prints for it; they are functions or objects, hence truthy;
  \<^item> \<open>js_String\<close>: the text a template literal prints for a value;
  \<^item> \<open>JSON_stringify\<close>: the text a template literal prints for
    \<^verbatim>\<open>JSON.stringify(v)\<close>.
\<close>

record js_runtime =
  inherited :: "string \<rightharpoonup> string"
  js_String :: "js_value \<Rightarrow> string"
  JSON_stringify :: "js_value \<Rightarrow> string"

text \<open>\<^verbatim>\<open>x || d\<close> for an optional string: \<^verbatim>\<open>undefined\<close> and \<^verbatim>\<open>''\<close> are falsy.\<close>

definition js_or :: "string option \<Rightarrow> string \<Rightarrow> string" where
  "js_or x d = (case x of None \<Rightarrow> d | Some s \<Rightarrow> if s = [] then d else s)"

text \<open>\<^verbatim>\<open>x || d\<close> for an optional number: \<^verbatim>\<open>undefined\<close> and \<^verbatim>\<open>0\<close> are falsy.\<close>

definition num_or :: "'a::zero option \<Rightarrow> 'a \<Rightarrow> 'a" where
  "num_or x d = (case x of None \<Rightarrow> d | Some n \<Rightarrow> if n = 0 then d else n)"

text \<open>\<^verbatim>\<open>Array.prototype.join\<close>.\<close>

fun join :: "string \<Rightarrow> string list \<Rightarrow> string" where
  "join sep [] = []"
| "join sep [x] = x"
| "join sep (x # y # ys) = x @ sep @ join sep (y # ys)"

subsection \<open>types.ts\<close>

text \<open>\<^verbatim>\<open>output?.style\<close> is flattened into \<open>output_style\<close>: absent when either is.\<close>

record CRAITEConfig =
  apiKey :: string
  provider :: "string option"
  model :: "string option"
  endpoint :: "string option"
  config_mcpTools :: "string list option"
  output_style :: "string option"

text \<open>
  The declared type of \<open>mode\<close> is \<^verbatim>\<open>'production' | 'educational'\<close>, which is erased at
  run time: any string can arrive, and the code handles it as a \<^verbatim>\<open>string\<close>.
\<close>

record GenerateOptions =
  prompt :: string
  language :: "string option"
  mode :: "string option"
  temperature :: "rat option"
  maxTokens :: "int option"

record ProviderResult =
  code :: string
  explanation :: "string option"

record GenerateResult = ProviderResult +
  result_language :: string
  toolsUsed :: "string list"

text \<open>\<^verbatim>\<open>execute: (params: any) => Promise<any>\<close>: it resolves to a value or rejects.\<close>

record TS_MCPTool =
  name :: string
  description :: string
  execute :: "js_value \<Rightarrow> js_error + js_value"

subsection \<open>llm-providers/base.ts\<close>

definition buildSystemPrompt :: string where
  "buildSystemPrompt =
     ''You are CRAITE, an elite Web3 code generator and AI development assistant. '' @ nl @
     ''    You specialize in blockchain development, smart contracts, dApps, DeFi protocols, and NFTs.'' @ nl @
     ''    Generate production-ready, secure, and optimized code following best practices.''"

definition formatPrompt :: "string \<Rightarrow> string \<Rightarrow> string" where
  "formatPrompt userPrompt m =
     (let modeInstructions =
            (if m = ''educational''
             then ''Provide detailed explanations and comments to help the user learn.''
             else ''Generate clean, production-ready code with minimal but essential comments.'')
      in buildSystemPrompt @ nl @ nl @ modeInstructions @ nl @ nl @ ''User request: ''
           @ userPrompt)"

text \<open>
  The character classes of the regular expression and of \<^verbatim>\<open>trim\<close>: \<^verbatim>\<open>\w\<close> is
  \<^verbatim>\<open>[A-Za-z0-9_]\<close>; \<^verbatim>\<open>trim\<close> strips white space and line terminators, of which
  tab, line feed, vertical tab, form feed, carriage return, space and no-break space are
  the ones below 256.
\<close>

definition isWordChar :: "char \<Rightarrow> bool" where
  "isWordChar c =
     (let n = (of_char c :: nat)
      in (48 \<le> n \<and> n \<le> 57) \<or> (65 \<le> n \<and> n \<le> 90) \<or> n = 95 \<or> (97 \<le> n \<and> n \<le> 122))"

definition isWhiteSpace :: "char \<Rightarrow> bool" where
  "isWhiteSpace c = ((of_char c :: nat) \<in> {9, 10, 11, 12, 13, 32, 160})"

definition fence :: string where
  "fence = [CHR 0x60, CHR 0x60, CHR 0x60]"

text \<open>
  The first occurrence of \<open>pat\<close> in a text: the text before it and the text after it
  (\<^verbatim>\<open>indexOf\<close>, and the shortest expansion of a lazy \<^verbatim>\<open>[\s\S]*?\<close> before a literal).
\<close>

fun splitAtFirst :: "string \<Rightarrow> string \<Rightarrow> (string \<times> string) option" where
  "splitAtFirst pat [] = (if pat = [] then Some ([], []) else None)"
| "splitAtFirst pat (c # cs) =
     (if has_prefix (c # cs) pat then Some ([], drop (length pat) (c # cs))
      else (case splitAtFirst pat cs of
              None \<Rightarrow> None
            | Some (before, after) \<Rightarrow> Some (c # before, after)))"

text \<open>
  The regular expression \<^verbatim>\<open>/```[\w]*\n([\s\S]*?)\n```/\<close> tried at the start of \<open>s\<close>:
  three backticks; the word characters that follow (a greedy \<^verbatim>\<open>[\w]*\<close> has to stop
  before a line feed, which is no word character, so it takes them all); a line feed;
  the shortest text followed by a line feed and three backticks. The result is group 1
  and the text after the match.
\<close>

definition matchHere :: "string \<Rightarrow> (string \<times> string) option" where
  "matchHere s =
     (if has_prefix s fence
      then (case dropWhile isWordChar (drop 3 s) of
              [] \<Rightarrow> None
            | c # u \<Rightarrow> if c = CHR 0x0A then splitAtFirst (nl @ fence) u else None)
      else None)"

text \<open>
  \<^verbatim>\<open>response.match(re)\<close> without the \<^verbatim>\<open>g\<close> flag: the leftmost position at which the
  expression matches. The result is the text before the match, the match
  (\<^verbatim>\<open>codeMatch[0]\<close>), group 1 (\<^verbatim>\<open>codeMatch[1]\<close>) and the text after the match.
\<close>

fun regexMatch :: "string \<Rightarrow> (string \<times> string \<times> string \<times> string) option" where
  "regexMatch [] = None"
| "regexMatch (c # cs) =
     (case matchHere (c # cs) of
        Some (body, post) \<Rightarrow>
          Some ([], take (length (c # cs) - length post) (c # cs), body, post)
      | None \<Rightarrow>
          (case regexMatch cs of
             None \<Rightarrow> None
           | Some (pre, whole, body, post) \<Rightarrow> Some (c # pre, whole, body, post)))"

text \<open>\<^verbatim>\<open>s.replace(pat, rep)\<close> with a string pattern: the first occurrence only. The
  only call passes the empty replacement, which holds no \<^verbatim>\<open>$\<close> pattern.\<close>

definition replaceFirst :: "string \<Rightarrow> string \<Rightarrow> string \<Rightarrow> string" where
  "replaceFirst s pat rep =
     (case splitAtFirst pat s of None \<Rightarrow> s | Some (before, after) \<Rightarrow> before @ rep @ after)"

definition trim :: "string \<Rightarrow> string" where
  "trim s = rev (dropWhile isWhiteSpace (rev (dropWhile isWhiteSpace s)))"

definition extractCodeFromResponse :: "string \<Rightarrow> ProviderResult" where
  "extractCodeFromResponse response =
     (case regexMatch response of
        Some (pre, whole, body, post) \<Rightarrow>
          (let expl = trim (replaceFirst response whole [])
           in \<lparr>code = body, explanation = (if expl = [] then None else Some expl)\<rparr>)
      | None \<Rightarrow> \<lparr>code = response, explanation = None\<rparr>)"

subsection \<open>llm-providers/openai.ts and anthropic.ts\<close>

datatype provider_kind = OpenAI | Anthropic

record LLMProvider =
  kind :: provider_kind
  apiUrl :: string
  provider_config :: CRAITEConfig

definition OpenAIProvider :: "CRAITEConfig \<Rightarrow> LLMProvider" where
  "OpenAIProvider cfg =
     \<lparr>kind = OpenAI,
      apiUrl = js_or (endpoint cfg) ''https://api.openai.com/v1/chat/completions'',
      provider_config = cfg\<rparr>"

definition AnthropicProvider :: "CRAITEConfig \<Rightarrow> LLMProvider" where
  "AnthropicProvider cfg =
     \<lparr>kind = Anthropic,
      apiUrl = js_or (endpoint cfg) ''https://api.anthropic.com/v1/messages'',
      provider_config = cfg\<rparr>"

text \<open>
  What \<^verbatim>\<open>axios.post\<close> is given: the URL, the key the headers carry, and the body (the
  system text, the user message, the model and the sampling parameters).
\<close>

record llm_request =
  req_kind :: provider_kind
  req_url :: string
  req_apiKey :: string
  req_model :: string
  req_system :: string
  req_user :: string
  req_max_tokens :: int
  req_temperature :: rat

text \<open>
  The upstream service: the HTTP exchange followed by the read of the reply's text
  (\<^verbatim>\<open>choices[0].message.content\<close>, \<^verbatim>\<open>content[0].text\<close>). \<open>Inl\<close> when either throws.
\<close>

type_synonym upstream = "llm_request \<Rightarrow> js_error + string"

definition LLMProvider_generate ::
  "upstream \<Rightarrow> LLMProvider \<Rightarrow> GenerateOptions \<Rightarrow> js_error + ProviderResult" where
  "LLMProvider_generate post p options =
     (let m = js_or (mode options) ''production'';
          formattedPrompt = formatPrompt (prompt options) m
      in case post
             \<lparr>req_kind = kind p, req_url = apiUrl p,
              req_apiKey = apiKey (provider_config p),
              req_model =
                js_or (model (provider_config p))
                  (case kind p of OpenAI \<Rightarrow> ''gpt-4'' | Anthropic \<Rightarrow> ''claude-3-opus-20240229''),
              req_system = buildSystemPrompt, req_user = formattedPrompt,
              req_max_tokens = num_or (maxTokens options) 2000,
              req_temperature = num_or (temperature options) (7 / 10)\<rparr> of
           Inl (JsError msg) \<Rightarrow>
             Inl (JsError ((case kind p of OpenAI \<Rightarrow> ''OpenAI API error: ''
                          | Anthropic \<Rightarrow> ''Anthropic API error: '') @ msg))
         | Inr content \<Rightarrow> Inr (extractCodeFromResponse content))"

subsection \<open>craite.ts\<close>

record CRAITE =
  llmProvider :: LLMProvider
  mcpTools :: "string \<rightharpoonup> TS_MCPTool"
  config :: CRAITEConfig

text \<open>In the default branch \<^verbatim>\<open>config.provider\<close> is a non-empty string, the one switched on.\<close>

definition initializeLLMProvider :: "CRAITEConfig \<Rightarrow> js_error + LLMProvider" where
  "initializeLLMProvider cfg =
     (let p = js_or (provider cfg) ''openai''
      in if p = ''openai'' then Inr (OpenAIProvider cfg)
         else if p = ''anthropic'' then Inr (AnthropicProvider cfg)
         else Inl (JsError (''Unsupported LLM provider: '' @ p)))"

definition stubTool :: "string \<Rightarrow> TS_MCPTool" where
  "stubTool toolName =
     \<lparr>name = toolName, description = ''MCP tool: '' @ toolName,
      execute = (\<lambda>params. Inr (JObj [(''success'', JBool True), (''data'', JObj [])]))\<rparr>"

fun initializeMCPTools ::
  "(string \<rightharpoonup> TS_MCPTool) \<Rightarrow> string list \<Rightarrow> (string \<rightharpoonup> TS_MCPTool)" where
  "initializeMCPTools tools [] = tools"
| "initializeMCPTools tools (toolName # rest) =
     initializeMCPTools (tools(toolName \<mapsto> stubTool toolName)) rest"

definition new_CRAITE :: "CRAITEConfig \<Rightarrow> js_error + CRAITE" where
  "new_CRAITE cfg =
     (case initializeLLMProvider cfg of
        Inl e \<Rightarrow> Inl e
      | Inr p \<Rightarrow>
          Inr \<lparr>llmProvider = p,
               mcpTools =
                 (case config_mcpTools cfg of
                    None \<Rightarrow> Map.empty
                  | Some toolNames \<Rightarrow> initializeMCPTools Map.empty toolNames),
               config = cfg\<rparr>)"

definition registerTool :: "CRAITE \<Rightarrow> TS_MCPTool \<Rightarrow> CRAITE" where
  "registerTool c tool = c\<lparr>mcpTools := (mcpTools c)(name tool \<mapsto> tool)\<rparr>"

text \<open>
  The lookup \<^verbatim>\<open>modeInstructions[mode]\<close> in the two-entry object literal: an own entry,
  else whatever the literal inherits under that name.
\<close>

definition modeInstructions :: "js_runtime \<Rightarrow> string \<Rightarrow> string option" where
  "modeInstructions rt m =
     (if m = ''production''
        then Some ''Generate production-ready code with minimal comments. Focus on efficiency and best practices.''
      else if m = ''educational''
        then Some ''Generate code with detailed explanations, comments, and step-by-step guidance for learning.''
      else inherited rt m)"

definition enhancePromptWithMode :: "js_runtime \<Rightarrow> string \<Rightarrow> string \<Rightarrow> string" where
  "enhancePromptWithMode rt userPrompt m =
     js_or (modeInstructions rt m) [] @ nl @ nl @ userPrompt"

definition enhancePromptWithToolResults ::
  "js_runtime \<Rightarrow> string \<Rightarrow> js_value list \<Rightarrow> string" where
  "enhancePromptWithToolResults rt userPrompt toolResults =
     (if length toolResults = 0 then userPrompt
      else (let context =
                  join (nl @ nl)
                    (map (\<lambda>result.
                            ''Tool: '' @ js_String rt (get_prop result ''tool'') @ nl
                              @ ''Result: '' @ JSON_stringify rt (get_prop result ''data''))
                       toolResults)
            in userPrompt @ nl @ nl @ ''Additional context from MCP tools:'' @ nl @ context))"

definition generate ::
  "js_runtime \<Rightarrow> upstream \<Rightarrow> CRAITE \<Rightarrow> GenerateOptions \<Rightarrow> js_error + GenerateResult" where
  "generate rt post c options =
     (let m = js_or (mode options) (js_or (output_style (config c)) ''production'');
          enhancedPrompt = enhancePromptWithMode rt (prompt options) m
      in case LLMProvider_generate post (llmProvider c) (options\<lparr>prompt := enhancedPrompt\<rparr>) of
           Inl e \<Rightarrow> Inl e
         | Inr result \<Rightarrow>
             Inr \<lparr>code = code result,
                  explanation = (if m = ''educational'' then explanation result else None),
                  result_language = js_or (language options) ''javascript'',
                  toolsUsed = []\<rparr>)"

definition useTool :: "CRAITE \<Rightarrow> string \<Rightarrow> js_value \<Rightarrow> js_error + js_value" where
  "useTool c toolName params =
     (case mcpTools c toolName of
        None \<Rightarrow> Inl (JsError (''MCP tool not found: '' @ toolName))
      | Some tool \<Rightarrow> execute tool params)"

text \<open>
  The loop of \<^verbatim>\<open>generateWithTools\<close> over the requested names; the state is the pair
  \<open>(toolsUsed, toolResults)\<close>. An unregistered name is passed over; a rejected
  \<^verbatim>\<open>execute\<close> leaves the loop and the call.
\<close>

fun runTools ::
  "CRAITE \<Rightarrow> string \<Rightarrow> string list \<Rightarrow> string list \<times> js_value list
     \<Rightarrow> js_error + (string list \<times> js_value list)" where
  "runTools c userPrompt [] acc = Inr acc"
| "runTools c userPrompt (toolName # rest) (used, toolResults) =
     (case mcpTools c toolName of
        None \<Rightarrow> runTools c userPrompt rest (used, toolResults)
      | Some tool \<Rightarrow>
          (case useTool c toolName (JObj [(''query'', JStr userPrompt)]) of
             Inl e \<Rightarrow> Inl e
           | Inr result \<Rightarrow>
               if truthy result
               then runTools c userPrompt rest (used @ [toolName], toolResults @ [result])
               else runTools c userPrompt rest (used, toolResults)))"

definition generateWithTools ::
  "js_runtime \<Rightarrow> upstream \<Rightarrow> CRAITE \<Rightarrow> GenerateOptions \<Rightarrow> string list
     \<Rightarrow> js_error + GenerateResult" where
  "generateWithTools rt post c options tools =
     (case runTools c (prompt options) tools ([], []) of
        Inl e \<Rightarrow> Inl e
      | Inr (used, toolResults) \<Rightarrow>
          (let enhancedPrompt = enhancePromptWithToolResults rt (prompt options) toolResults
           in case generate rt post c (options\<lparr>prompt := enhancedPrompt\<rparr>) of
                Inl e \<Rightarrow> Inl e
              | Inr result \<Rightarrow> Inr (result\<lparr>toolsUsed := used\<rparr>)))"

section \<open>Notions the properties are stated with\<close>

text \<open>
  The blocks the expression of \<open>extractCodeFromResponse\<close> recognises. This is the
  expression's own notion and narrower than a fenced block in general: three backticks,
  a tag made of word characters only (possibly empty), a line feed right after the tag,
  the interior, a line feed right before the closing three backticks. A block tagged
  \<^verbatim>\<open>c++\<close>, a block whose lines end in carriage return and line feed, and a block whose
  closing backticks stand on the last line of the interior are not of this form.
\<close>

definition recognisedBlock :: "string \<Rightarrow> string \<Rightarrow> string" where
  "recognisedBlock tag body = fence @ tag @ nl @ body @ nl @ fence"

definition hasRecognisedBlock :: "string \<Rightarrow> bool" where
  "hasRecognisedBlock r \<longleftrightarrow>
     (\<exists>pre tag body post. list_all isWordChar tag \<and> r = pre @ recognisedBlock tag body @ post)"

text \<open>
  The first recognised block of a text: no recognised block starts further left, and
  among the blocks that start there it has the shortest interior (it closes at the first
  closing marker).
\<close>

definition firstRecognisedBlock :: "string \<Rightarrow> string \<Rightarrow> string \<Rightarrow> string \<Rightarrow> string \<Rightarrow> bool" where
  "firstRecognisedBlock r pre tag body post \<longleftrightarrow>
     list_all isWordChar tag \<and> r = pre @ recognisedBlock tag body @ post \<and>
     (\<forall>pre' tag' body' post'.
        list_all isWordChar tag' \<and> r = pre' @ recognisedBlock tag' body' @ post' \<longrightarrow>
          length pre \<le> length pre' \<and>
          (length pre' = length pre \<longrightarrow> length body \<le> length body'))"

section \<open>Concrete inputs for the examples\<close>

text \<open>
  A runtime for the examples: two of the members \<^verbatim>\<open>Object.prototype\<close> provides, the
  text a template literal prints for primitive values and plain objects, and
  \<^verbatim>\<open>JSON.stringify\<close> on the empty object (other values are printed like \<open>example_String\<close>;
  the examples do not depend on them).
\<close>

definition example_String :: "js_value \<Rightarrow> string" where
  "example_String v =
     (case v of
        JUndefined \<Rightarrow> ''undefined''
      | JNull \<Rightarrow> ''null''
      | JBool b \<Rightarrow> (if b then ''true'' else ''false'')
      | JNum n \<Rightarrow> (if 0 \<le> n then itoa (nat n) else ''-'' @ itoa (nat (- n)))
      | JStr s \<Rightarrow> s
      | JObj kvs \<Rightarrow> ''[object Object]'')"

definition example_runtime :: js_runtime where
  "example_runtime =
     \<lparr>inherited =
        [''constructor'' \<mapsto> ''function Object() { [native code] }'',
         ''toString'' \<mapsto> ''function toString() { [native code] }''],
      js_String = example_String,
      JSON_stringify = (\<lambda>v. case v of JObj [] \<Rightarrow> ''{}'' | _ \<Rightarrow> example_String v)\<rparr>"

text \<open>A registered tool whose result reports failure.\<close>

definition failingTool :: TS_MCPTool where
  "failingTool =
     \<lparr>name = ''audit'', description = ''A tool that reports failure'',
      execute =
        (\<lambda>params. Inr (JObj [(''success'', JBool False), (''error'', JStr ''scan failed'')]))\<rparr>"

definition example_config :: CRAITEConfig where
  "example_config =
     \<lparr>apiKey = ''key'', provider = None, model = None, endpoint = None,
      config_mcpTools = Some [''docs''], output_style = None\<rparr>"

text \<open>The facade built from \<open>example_config\<close>, with \<open>failingTool\<close> registered after it.\<close>

definition example_craite :: CRAITE where
  "example_craite =
     registerTool
       \<lparr>llmProvider = OpenAIProvider example_config,
        mcpTools = initializeMCPTools Map.empty [''docs''],
        config = example_config\<rparr>
       failingTool"

definition example_options :: GenerateOptions where
  "example_options =
     \<lparr>prompt = ''Create a vault'', language = Some ''solidity'', mode = None,
      temperature = None, maxTokens = None\<rparr>"

text \<open>A reply with a fenced block followed by prose.\<close>

definition example_reply :: string where
  "example_reply =
     fence @ ''js'' @ nl @ ''const a=1;'' @ nl @ fence @ nl @ ''This sets a.''"

text \<open>
  Two replies with a fenced block followed by prose that the expression does not
  recognise: the first block is tagged \<^verbatim>\<open>c++\<close>, the lines of the second end in carriage
  return and line feed.
\<close>

definition cpp_reply :: string where
  "cpp_reply =
     fence @ ''c++'' @ nl @ ''int x;'' @ nl @ fence @ nl @ ''This declares x.''"

definition crlf_reply :: string where
  "crlf_reply =
     fence @ ''js'' @ [CHR 0x0D] @ nl @ ''const a=1;'' @ [CHR 0x0D] @ nl @ fence
       @ [CHR 0x0D] @ nl @ ''This sets a.''"

text \<open>An upstream whose reply tells whether the facade's production instruction
  reached it.\<close>

definition instruction_sensitive_upstream :: upstream where
  "instruction_sensitive_upstream req =
     Inr (if strings_Contains (req_user req)
               ''Generate production-ready code with minimal comments.''
          then ''A'' else ''B'')"

section \<open>Facts about the string helpers\<close>

lemma has_prefix_iff: "has_prefix s p \<longleftrightarrow> (\<exists>t. s = p @ t)"
  by (induction s p rule: has_prefix.induct) auto

lemma has_prefix_append [simp]: "has_prefix (p @ t) p"
  by (simp add: has_prefix_iff)

text \<open>\<open>strings_Contains\<close> is the substring relation.\<close>

lemma strings_Contains_iff: "strings_Contains s sub \<longleftrightarrow> (\<exists>a b. s = a @ sub @ b)"
proof (induction s)
  case Nil
  then show ?case by auto
next
  case (Cons c cs)
  show ?case
  proof
    assume "strings_Contains (c # cs) sub"
    then consider "has_prefix (c # cs) sub" | "strings_Contains cs sub" by auto
    then show "\<exists>a b. c # cs = a @ sub @ b"
    proof cases
      case 1
      then obtain t where "c # cs = sub @ t" by (auto simp: has_prefix_iff)
      then have "c # cs = [] @ sub @ t" by simp
      then show ?thesis by blast
    next
      case 2
      then obtain a b where "cs = a @ sub @ b" using Cons.IH by blast
      then have "c # cs = (c # a) @ sub @ b" by simp
      then show ?thesis by blast
    qed
  next
    assume "\<exists>a b. c # cs = a @ sub @ b"
    then obtain a b where ab: "c # cs = a @ sub @ b" by blast
    show "strings_Contains (c # cs) sub"
    proof (cases a)
      case Nil
      with ab have "has_prefix (c # cs) sub" by (auto simp: has_prefix_iff)
      then show ?thesis by simp
    next
      case (Cons x xs)
      with ab have "cs = xs @ sub @ b" by simp
      then have "strings_Contains cs sub" using Cons.IH by blast
      then show ?thesis by simp
    qed
  qed
qed

text \<open>\<open>splitAtFirst\<close> returns an occurrence of the pattern, and the first one.\<close>

lemma splitAtFirst_SomeD:
  "splitAtFirst pat s = Some (x, y) \<Longrightarrow> s = x @ pat @ y"
proof (induction s arbitrary: x)
  case Nil
  then show ?case by (simp split: if_splits)
next
  case (Cons c cs)
  show ?case
  proof (cases "has_prefix (c # cs) pat")
    case True
    then obtain t where t: "c # cs = pat @ t" by (auto simp: has_prefix_iff)
    from True Cons.prems have "x = []" "y = drop (length pat) (c # cs)" by auto
    then show ?thesis using t by simp
  next
    case False
    with Cons.prems obtain x' where "splitAtFirst pat cs = Some (x', y)" "x = c # x'"
      by (auto split: option.splits)
    then show ?thesis using Cons.IH by simp
  qed
qed

lemma splitAtFirst_first:
  "splitAtFirst pat s = Some (x, y) \<Longrightarrow> s = x' @ pat @ y' \<Longrightarrow> length x \<le> length x'"
proof (induction s arbitrary: x x')
  case Nil
  then show ?case by (simp split: if_splits)
next
  case (Cons c cs)
  show ?case
  proof (cases "has_prefix (c # cs) pat")
    case True
    with Cons.prems(1) have "x = []" by simp
    then show ?thesis by simp
  next
    case False
    with Cons.prems(1) obtain x0 where x0: "splitAtFirst pat cs = Some (x0, y)" "x = c # x0"
      by (auto split: option.splits)
    from False Cons.prems(2) have "x' \<noteq> []" by (auto simp: has_prefix_iff)
    then obtain x1 where x1: "x' = c # x1" "cs = x1 @ pat @ y'"
      using Cons.prems(2) by (cases x') auto
    from Cons.IH [OF x0(1) x1(2)] show ?thesis using x0 x1 by simp
  qed
qed

lemma splitAtFirst_SomeI:
  "s = x' @ pat @ z \<Longrightarrow>
     \<exists>x y w. splitAtFirst pat s = Some (x, y) \<and> y = w @ z \<and> length x \<le> length x'"
proof (induction s arbitrary: x')
  case Nil
  then show ?case by simp
next
  case (Cons c cs)
  show ?case
  proof (cases "has_prefix (c # cs) pat")
    case True
    have "drop (length pat) (c # cs) = drop (length pat) (x' @ pat) @ z"
      using Cons.prems by simp
    with True show ?thesis by auto
  next
    case False
    with Cons.prems have "x' \<noteq> []" by (auto simp: has_prefix_iff)
    then obtain x1 where x1: "x' = c # x1" "cs = x1 @ pat @ z"
      using Cons.prems by (cases x') auto
    from Cons.IH [OF x1(2)] obtain x y w where
      "splitAtFirst pat cs = Some (x, y)" "y = w @ z" "length x \<le> length x1" by blast
    with False x1 show ?thesis by auto
  qed
qed

lemma splitAtFirst_prefix: "splitAtFirst w (w @ q) = Some ([], q)"
proof (cases "w @ q")
  case Nil
  then show ?thesis by simp
next
  case (Cons c cs)
  have "has_prefix (w @ q) w" by simp
  then have "splitAtFirst w (w @ q) = Some ([], drop (length w) (w @ q))"
    unfolding Cons by simp
  then show ?thesis by simp
qed

text \<open>\<open>trim\<close> empties exactly the texts made of white space, and keeps a piece that
  starts and ends with other characters.\<close>

lemma trim_empty_iff: "trim s = [] \<longleftrightarrow> list_all isWhiteSpace s"
proof -
  have "trim s = [] \<longleftrightarrow> dropWhile isWhiteSpace (rev (dropWhile isWhiteSpace s)) = []"
    by (simp add: trim_def)
  also have "\<dots> \<longleftrightarrow> (\<forall>c \<in> set (dropWhile isWhiteSpace s). isWhiteSpace c)"
    by simp
  also have "\<dots> \<longleftrightarrow> dropWhile isWhiteSpace s = []"
    by (metis dropWhile_eq_Nil_conv dropWhile_idem)
  also have "\<dots> \<longleftrightarrow> list_all isWhiteSpace s"
    by (simp add: list_all_iff)
  finally show ?thesis .
qed

lemma dropWhile_keeps:
  "\<not> P h \<Longrightarrow> \<exists>a'. dropWhile P (a @ h # r) = a' @ h # r"
  by (induction a) auto

lemma trim_keeps:
  assumes "B \<noteq> []" "\<not> isWhiteSpace (hd B)" "\<not> isWhiteSpace (last B)"
  shows "\<exists>x y. trim (a @ B @ z) = x @ B @ y"
proof -
  from assms(1) obtain h B' where B: "B = h # B'" by (cases B) auto
  with assms(2) have "\<not> isWhiteSpace h" by simp
  from dropWhile_keeps [of isWhiteSpace h a "B' @ z", OF this] B
  obtain a' where 1: "dropWhile isWhiteSpace (a @ B @ z) = a' @ B @ z" by auto
  have rB: "rev B = last B # rev (butlast B)"
    using assms(1) by (cases B rule: rev_cases) auto
  from dropWhile_keeps [of isWhiteSpace "last B" "rev z" "rev (butlast B) @ rev a'", OF assms(3)] rB
  obtain z' where 2: "dropWhile isWhiteSpace (rev z @ rev B @ rev a') = z' @ rev B @ rev a'"
    by auto
  have "trim (a @ B @ z) = a' @ B @ rev z'"
    by (simp add: trim_def 1 2)
  then show ?thesis by blast
qed

section \<open>Response extraction\<close>

text \<open>What the expression matches at one position, and where it matches first.\<close>

lemma newline_not_word [simp]: "\<not> isWordChar (CHR 0x0A)"
  by (simp add: isWordChar_def)

lemma backtick_not_word [simp]: "\<not> isWordChar (CHR 0x60)"
  by (simp add: isWordChar_def)

lemma backtick_not_space [simp]: "\<not> isWhiteSpace (CHR 0x60)"
  by (simp add: isWhiteSpace_def)

lemma dropWhile_word_tag:
  "list_all isWordChar t \<Longrightarrow> dropWhile isWordChar (t @ CHR 0x0A # u) = CHR 0x0A # u"
  by (induction t) auto

lemma matchHere_SomeD:
  assumes "matchHere s = Some (b, q)"
  shows "\<exists>t. list_all isWordChar t \<and> s = fence @ t @ nl @ b @ nl @ fence @ q
           \<and> splitAtFirst (nl @ fence) (b @ nl @ fence @ q) = Some (b, q)"
proof -
  from assms have pre: "has_prefix s fence"
    by (auto simp: matchHere_def split: if_splits)
  then obtain s' where s': "s = fence @ s'" by (auto simp: has_prefix_iff)
  then have d3: "drop 3 s = s'" by (simp add: fence_def)
  from assms pre d3 obtain u where u: "dropWhile isWordChar s' = CHR 0x0A # u"
    and sp: "splitAtFirst (nl @ fence) u = Some (b, q)"
    by (auto simp: matchHere_def split: if_splits list.splits)
  define t where "t = takeWhile isWordChar s'"
  have "s' = t @ CHR 0x0A # u" using u unfolding t_def
    by (metis takeWhile_dropWhile_id)
  moreover have "list_all isWordChar t" unfolding t_def
    by (simp add: list_all_iff) (meson set_takeWhileD)
  moreover have "u = b @ nl @ fence @ q" using splitAtFirst_SomeD [OF sp] by simp
  ultimately show ?thesis using s' sp by (auto simp: nl_def)
qed

lemma matchHere_SomeI:
  assumes "list_all isWordChar t"
  shows "\<exists>b q w. matchHere (fence @ t @ nl @ X @ nl @ fence @ z) = Some (b, q) \<and> q = w @ z
           \<and> length b \<le> length X"
proof -
  have "drop 3 (fence @ t @ nl @ X @ nl @ fence @ z) = t @ CHR 0x0A # (X @ nl @ fence @ z)"
    by (simp add: fence_def nl_def)
  moreover have "dropWhile isWordChar (t @ CHR 0x0A # (X @ nl @ fence @ z)) = CHR 0x0A # (X @ nl @ fence @ z)"
    using assms by (rule dropWhile_word_tag)
  moreover obtain b q w where "splitAtFirst (nl @ fence) (X @ nl @ fence @ z) = Some (b, q)"
    "q = w @ z" "length b \<le> length X"
    using splitAtFirst_SomeI [of "X @ nl @ fence @ z" X "nl @ fence" z] by auto
  ultimately show ?thesis by (simp add: matchHere_def)
qed

lemma matchHere_block:
  "list_all isWordChar t \<Longrightarrow> matchHere (recognisedBlock t X @ z) \<noteq> None"
  using matchHere_SomeI [of t X z] by (auto simp: recognisedBlock_def)

lemma regexMatch_SomeD:
  "regexMatch s = Some (p, w, b, q) \<Longrightarrow>
     s = p @ w @ q \<and> matchHere (w @ q) = Some (b, q) \<and> splitAtFirst w s = Some (p, q)
     \<and> (\<forall>a t X z. list_all isWordChar t \<and> s = a @ recognisedBlock t X @ z \<longrightarrow> length p \<le> length a)"
proof (induction s arbitrary: p)
  case Nil
  then show ?case by simp
next
  case (Cons c cs)
  show ?case
  proof (cases "matchHere (c # cs)")
    case (Some bq)
    with Cons.prems have eq: "p = []" "w = take (length (c # cs) - length q) (c # cs)"
      and m: "matchHere (c # cs) = Some (b, q)"
      by (auto split: prod.splits)
    from matchHere_SomeD [OF m] obtain t where
      s: "c # cs = (fence @ t @ nl @ b @ nl @ fence) @ q" by auto
    have w: "w = fence @ t @ nl @ b @ nl @ fence"
      unfolding eq(2) by (subst s, subst s) simp
    have wq: "c # cs = w @ q" using s w by simp
    have "splitAtFirst w (c # cs) = Some ([], q)"
      unfolding wq by (rule splitAtFirst_prefix)
    then show ?thesis using eq(1) wq m by simp
  next
    case None
    with Cons.prems obtain p' where r: "regexMatch cs = Some (p', w, b, q)" and p: "p = c # p'"
      by (auto split: option.splits)
    from Cons.IH [OF r] have ih: "cs = p' @ w @ q" "matchHere (w @ q) = Some (b, q)"
      "splitAtFirst w cs = Some (p', q)"
      "\<And>a t X z. list_all isWordChar t \<Longrightarrow> cs = a @ recognisedBlock t X @ z \<Longrightarrow> length p' \<le> length a"
      by blast+
    from matchHere_SomeD [OF ih(2)] obtain t where t: "list_all isWordChar t"
      and w: "w = recognisedBlock t b" by (auto simp: recognisedBlock_def)
    have np: "\<not> has_prefix (c # cs) w"
    proof
      assume "has_prefix (c # cs) w"
      then obtain rest where "c # cs = recognisedBlock t b @ rest" by (auto simp: has_prefix_iff w)
      then show False using matchHere_block [OF t, of b rest] None by simp
    qed
    have left: "length p \<le> length a" if "list_all isWordChar t'" "c # cs = a @ recognisedBlock t' X @ z"
      for a t' X z
    proof (cases a)
      case Nil
      with that matchHere_block [OF that(1), of X z] None show ?thesis by simp
    next
      case (Cons x a')
      with that have "cs = a' @ recognisedBlock t' X @ z" by simp
      from ih(4) [OF that(1) this] show ?thesis using p Cons by simp
    qed
    from np ih(3) have "splitAtFirst w (c # cs) = Some (c # p', q)" by simp
    then show ?thesis using p ih(1,2) left by auto
  qed
qed

lemma regexMatch_NoneD:
  "regexMatch s = None \<Longrightarrow> \<not> hasRecognisedBlock s"
proof (induction s)
  case Nil
  then show ?case by (auto simp: hasRecognisedBlock_def recognisedBlock_def fence_def)
next
  case (Cons c cs)
  then have m: "matchHere (c # cs) = None" and r: "regexMatch cs = None"
    by (auto split: option.splits prod.splits)
  show ?case
  proof
    assume "hasRecognisedBlock (c # cs)"
    then obtain pre tag body post where t: "list_all isWordChar tag"
      and s: "c # cs = pre @ recognisedBlock tag body @ post" by (auto simp: hasRecognisedBlock_def)
    show False
    proof (cases pre)
      case Nil
      with s m matchHere_block [OF t, of body post] show False by simp
    next
      case (Cons x pre')
      with s have "cs = pre' @ recognisedBlock tag body @ post" by simp
      with t have "hasRecognisedBlock cs" by (auto simp: hasRecognisedBlock_def)
      with Cons.IH [OF r] show False by simp
    qed
  qed
qed

lemma regexMatch_SomeI:
  "hasRecognisedBlock s \<Longrightarrow> \<exists>p w b q. regexMatch s = Some (p, w, b, q)"
  using regexMatch_NoneD [of s] by (cases "regexMatch s") auto

lemma word_tag_unique:
  assumes "list_all isWordChar t1" "list_all isWordChar t2"
      and "t1 @ nl @ r1 = t2 @ nl @ r2"
  shows "t1 = t2 \<and> r1 = r2"
proof -
  have "takeWhile isWordChar (t1 @ CHR 0x0A # r1) = t1"
    using assms(1) by (induction t1) auto
  moreover have "takeWhile isWordChar (t2 @ CHR 0x0A # r2) = t2"
    using assms(2) by (induction t2) auto
  ultimately have "t1 = t2" using assms(3) by (simp add: nl_def)
  then show ?thesis using assms(3) by simp
qed

lemma firstRecognisedBlock_regexMatch:
  assumes "firstRecognisedBlock r pre tag body post"
  shows "regexMatch r = Some (pre, recognisedBlock tag body, body, post)"
proof -
  from assms have tag: "list_all isWordChar tag" and r: "r = pre @ recognisedBlock tag body @ post"
    and least: "\<And>pre' tag' body' post'. list_all isWordChar tag' \<Longrightarrow>
        r = pre' @ recognisedBlock tag' body' @ post' \<Longrightarrow>
         length pre \<le> length pre' \<and> (length pre' = length pre \<longrightarrow> length body \<le> length body')"
    unfolding firstRecognisedBlock_def by blast+
  from tag r have "hasRecognisedBlock r" by (auto simp: hasRecognisedBlock_def)
  then obtain p w b q where m: "regexMatch r = Some (p, w, b, q)"
    using regexMatch_SomeI by blast
  from regexMatch_SomeD [OF m] have d: "r = p @ w @ q" "matchHere (w @ q) = Some (b, q)"
    "\<And>a t X z. list_all isWordChar t \<Longrightarrow> r = a @ recognisedBlock t X @ z \<Longrightarrow> length p \<le> length a"
    by blast+
  from matchHere_SomeD [OF d(2)] obtain t where t: "list_all isWordChar t"
    and w: "w = recognisedBlock t b"
    and sp: "splitAtFirst (nl @ fence) (b @ nl @ fence @ q) = Some (b, q)"
    by (auto simp: recognisedBlock_def)
  have r2: "r = p @ recognisedBlock t b @ q" using d(1) w by simp
  have "length p \<le> length pre" using d(3) [OF tag r] .
  moreover have "length pre \<le> length p" using least [OF t r2] by simp
  ultimately have len: "length p = length pre" by simp
  with r r2 have pp: "p = pre" and rest: "recognisedBlock tag body @ post = recognisedBlock t b @ q"
    by (metis append_eq_append_conv)+
  from rest have "tag @ nl @ (body @ nl @ fence @ post) = t @ nl @ (b @ nl @ fence @ q)"
    by (simp add: recognisedBlock_def)
  from word_tag_unique [OF tag t this] have tt: "tag = t"
    and bq: "body @ nl @ fence @ post = b @ nl @ fence @ q" by simp_all
  have "length b \<le> length body"
    using splitAtFirst_first [OF sp, of body post] bq by simp
  moreover have "length body \<le> length b" using least [OF t r2] len by simp
  ultimately have "length b = length body" by simp
  with bq have "b = body" "q = post" by (metis append_eq_append_conv)+
  with m pp w tt show ?thesis by simp
qed

lemma regexMatch_firstRecognisedBlock:
  assumes "regexMatch r = Some (p, w, b, q)"
  shows "\<exists>t. w = recognisedBlock t b \<and> firstRecognisedBlock r p t b q"
proof -
  from regexMatch_SomeD [OF assms] have d: "r = p @ w @ q" "matchHere (w @ q) = Some (b, q)"
    "\<And>a t X z. list_all isWordChar t \<Longrightarrow> r = a @ recognisedBlock t X @ z \<Longrightarrow> length p \<le> length a"
    by blast+
  from matchHere_SomeD [OF d(2)] obtain t where t: "list_all isWordChar t"
    and w: "w = recognisedBlock t b"
    and sp: "splitAtFirst (nl @ fence) (b @ nl @ fence @ q) = Some (b, q)"
    by (auto simp: recognisedBlock_def)
  have r2: "r = p @ recognisedBlock t b @ q" using d(1) w by simp
  have "length p \<le> length pre' \<and> (length pre' = length p \<longrightarrow> length b \<le> length body')"
    if h: "list_all isWordChar tag'" "r = pre' @ recognisedBlock tag' body' @ post'"
    for pre' tag' body' post'
  proof
    show "length p \<le> length pre'" using d(3) [OF h] .
    show "length pre' = length p \<longrightarrow> length b \<le> length body'"
    proof
      assume len: "length pre' = length p"
      with r2 h(2) have "recognisedBlock tag' body' @ post' = recognisedBlock t b @ q"
        by (metis append_eq_append_conv)
      then have "tag' @ nl @ (body' @ nl @ fence @ post') = t @ nl @ (b @ nl @ fence @ q)"
        by (simp add: recognisedBlock_def)
      from word_tag_unique [OF h(1) t this]
      have "b @ nl @ fence @ q = body' @ (nl @ fence) @ post'" by simp
      from splitAtFirst_first [OF sp this] show "length b \<le> length body'" .
    qed
  qed
  with t r2 w show ?thesis unfolding firstRecognisedBlock_def by blast
qed

lemma recognisedBlock_ends:
  "recognisedBlock t b \<noteq> [] \<and> \<not> isWhiteSpace (hd (recognisedBlock t b)) \<and> \<not> isWhiteSpace (last (recognisedBlock t b))"
  by (simp add: recognisedBlock_def fence_def)

lemma extract_firstRecognisedBlock:
  assumes "firstRecognisedBlock r pre tag body post"
  shows "extractCodeFromResponse r =
           \<lparr>code = body,
            explanation = (if trim (pre @ post) = [] then None else Some (trim (pre @ post)))\<rparr>"
proof -
  from firstRecognisedBlock_regexMatch [OF assms]
  have m: "regexMatch r = Some (pre, recognisedBlock tag body, body, post)" .
  from regexMatch_SomeD [OF m] have "splitAtFirst (recognisedBlock tag body) r = Some (pre, post)"
    by blast
  then have "replaceFirst r (recognisedBlock tag body) [] = pre @ post"
    by (simp add: replaceFirst_def)
  with m show ?thesis by (simp add: extractCodeFromResponse_def Let_def)
qed

text \<open>A recognised block anywhere in the text makes the expression match, and the match ends
  no later than that block does.\<close>

lemma matchHere_before_block:
  assumes m: "matchHere (a @ recognisedBlock t X @ z) = Some (b, q)" and t: "list_all isWordChar t"
  shows "\<exists>y. q = y @ z"
proof -
  let ?R = "t @ nl @ X @ nl @ fence @ z"
  have D: "a @ recognisedBlock t X @ z = a @ fence @ ?R" by (simp add: recognisedBlock_def)
  from m obtain u where dw: "dropWhile isWordChar (drop 3 (a @ fence @ ?R)) = CHR 0x0A # u"
    and sp: "splitAtFirst (nl @ fence) u = Some (b, q)"
    unfolding D by (auto simp: matchHere_def split: if_splits list.splits)
  consider "a = []" | x where "a = [x]" | x y where "a = [x, y]"
    | x y v a1 where "a = x # y # v # a1"
    by (cases a rule: list.exhaust; cases "tl a"; cases "tl (tl a)") auto
  then show ?thesis
  proof cases
    case 1
    with m matchHere_SomeI [OF t, of X z] show ?thesis by (auto simp: recognisedBlock_def)
  next
    case 2
    with dw show ?thesis by (simp add: fence_def)
  next
    case 3
    with dw show ?thesis by (simp add: fence_def)
  next
    case 4
    then have d3: "drop 3 (a @ fence @ ?R) = a1 @ fence @ ?R" by simp
    show ?thesis
    proof (cases "\<forall>c \<in> set a1. isWordChar c")
      case True
      then have "dropWhile isWordChar (a1 @ fence @ ?R) = dropWhile isWordChar (fence @ ?R)"
        by (intro dropWhile_append2) simp
      also have "\<dots> = fence @ ?R" by (simp add: fence_def)
      finally show ?thesis using dw d3 by (simp add: fence_def)
    next
      case False
      then obtain c0 where "c0 \<in> set a1" "\<not> isWordChar c0" by blast
      then have "dropWhile isWordChar (a1 @ fence @ ?R) = dropWhile isWordChar a1 @ fence @ ?R"
        by (rule dropWhile_append1)
      with dw d3 have e: "dropWhile isWordChar a1 @ fence @ ?R = CHR 0x0A # u" by simp
      from False have "dropWhile isWordChar a1 \<noteq> []" by (simp add: dropWhile_eq_Nil_conv)
      with e obtain a2 where "u = a2 @ fence @ ?R" by (cases "dropWhile isWordChar a1") auto
      then have "u = (a2 @ fence @ t @ nl @ X) @ (nl @ fence) @ z" by simp
      from splitAtFirst_SomeI [OF this] sp show ?thesis by auto
    qed
  qed
qed

lemma regexMatch_before_block:
  assumes t: "list_all isWordChar t"
  shows "\<exists>p w b q y. regexMatch (a @ recognisedBlock t X @ z) = Some (p, w, b, q) \<and> q = y @ z"
proof (induction a)
  case Nil
  have ne: "recognisedBlock t X @ z \<noteq> []" by (simp add: recognisedBlock_def fence_def)
  then obtain c cs where s: "recognisedBlock t X @ z = c # cs" by (cases "recognisedBlock t X @ z") auto
  from matchHere_SomeI [OF t, of X z] obtain b q w
    where "matchHere (recognisedBlock t X @ z) = Some (b, q)" "q = w @ z"
    by (auto simp: recognisedBlock_def)
  then show ?case unfolding append_Nil s by simp
next
  case (Cons x a)
  show ?case
  proof (cases "matchHere ((x # a) @ recognisedBlock t X @ z)")
    case None
    with Cons.IH show ?thesis by auto
  next
    case (Some bq)
    obtain b q where bq: "bq = (b, q)" by (cases bq)
    from matchHere_before_block [OF Some [unfolded bq] t] obtain y where "q = y @ z" ..
    with Some bq show ?thesis by simp
  qed
qed

lemma explanation_after_block:
  assumes t: "list_all isWordChar tag" and r: "r = pre @ recognisedBlock tag body @ prose"
      and prose: "\<not> list_all isWhiteSpace prose"
  shows "\<exists>e. explanation (extractCodeFromResponse r) = Some e"
proof -
  from regexMatch_before_block [OF t, of pre body prose] r obtain p w b q y
    where m: "regexMatch r = Some (p, w, b, q)" and q: "q = y @ prose" by blast
  from regexMatch_SomeD [OF m] have "splitAtFirst w r = Some (p, q)" by blast
  then have rep: "replaceFirst r w [] = p @ q" by (simp add: replaceFirst_def)
  have "\<not> list_all isWhiteSpace (p @ q)" using prose q by simp
  then have "trim (p @ q) \<noteq> []" by (simp add: trim_empty_iff)
  with m rep show ?thesis by (simp add: extractCodeFromResponse_def Let_def)
qed


text \<open>
  Claim C5, as the code has it. If the raw text contains a block of the form the
  expression recognises (a tag of word characters only, a line feed after the tag and a
  line feed before the closing backticks), \<open>extractCodeFromResponse\<close> returns the
  interior of the first such block as \<open>code\<close>, and as \<open>explanation\<close> the text around
  that block, joined and trimmed, absent when nothing is left; a later block stays in
  the explanation as it is. If the text contains no block of that form, also when it
  holds fenced blocks of another form, the whole text is the \<open>code\<close> and the
  explanation is absent.
\<close>

theorem extractCodeFromResponse_first_block:
  "(hasRecognisedBlock r \<longrightarrow> (\<exists>pre tag body post. firstRecognisedBlock r pre tag body post))
   \<and> (\<forall>pre tag body post. firstRecognisedBlock r pre tag body post \<longrightarrow>
         extractCodeFromResponse r =
           \<lparr>code = body,
            explanation = (if trim (pre @ post) = [] then None else Some (trim (pre @ post)))\<rparr>
         \<and> (\<forall>a tag2 body2 z. post = a @ recognisedBlock tag2 body2 @ z \<longrightarrow>
               (\<exists>x y. explanation (extractCodeFromResponse r) = Some (x @ recognisedBlock tag2 body2 @ y))))
   \<and> (\<not> hasRecognisedBlock r \<longrightarrow> extractCodeFromResponse r = \<lparr>code = r, explanation = None\<rparr>)"
proof (intro conjI impI allI)
  assume "hasRecognisedBlock r"
  then obtain p w b q where "regexMatch r = Some (p, w, b, q)" using regexMatch_SomeI by blast
  from regexMatch_firstRecognisedBlock [OF this]
  show "\<exists>pre tag body post. firstRecognisedBlock r pre tag body post" by blast
next
  fix pre tag body post
  assume f: "firstRecognisedBlock r pre tag body post"
  then show "extractCodeFromResponse r =
           \<lparr>code = body,
            explanation = (if trim (pre @ post) = [] then None else Some (trim (pre @ post)))\<rparr>"
    by (rule extract_firstRecognisedBlock)
next
  fix pre tag body post a tag2 body2 z
  assume f: "firstRecognisedBlock r pre tag body post" and post: "post = a @ recognisedBlock tag2 body2 @ z"
  from recognisedBlock_ends [of tag2 body2] trim_keeps [of "recognisedBlock tag2 body2" "pre @ a" z]
  obtain x y where t: "trim (pre @ post) = x @ recognisedBlock tag2 body2 @ y"
    unfolding post by auto
  with recognisedBlock_ends [of tag2 body2] have "trim (pre @ post) \<noteq> []" by auto
  with t show "\<exists>x y. explanation (extractCodeFromResponse r) = Some (x @ recognisedBlock tag2 body2 @ y)"
    unfolding extract_firstRecognisedBlock [OF f] by auto
next
  assume nb: "\<not> hasRecognisedBlock r"
  have "regexMatch r = None"
  proof (cases "regexMatch r")
    case (Some m)
    obtain p w b q where "m = (p, w, b, q)" by (cases m)
    with Some regexMatch_firstRecognisedBlock [of r p w b q] obtain t
      where "firstRecognisedBlock r p t b q" by auto
    then have "hasRecognisedBlock r" unfolding firstRecognisedBlock_def hasRecognisedBlock_def by blast
    with nb show ?thesis by simp
  qed simp
  then show "extractCodeFromResponse r = \<lparr>code = r, explanation = None\<rparr>"
    by (simp add: extractCodeFromResponse_def)
qed

text \<open>The claim as stated fails: a reply whose fenced block is tagged \<^verbatim>\<open>c++\<close>, and a
  reply whose lines end in carriage return and line feed, come back whole as \<open>code\<close>,
  with no explanation, although each holds a fenced block followed by prose.\<close>

theorem extractCodeFromResponse_unrecognised_fence:
  "extractCodeFromResponse
     (fence @ ''c++'' @ nl @ ''int x;'' @ nl @ fence @ nl @ ''This declares x.'')
     = \<lparr>code = fence @ ''c++'' @ nl @ ''int x;'' @ nl @ fence @ nl @ ''This declares x.'',
        explanation = None\<rparr>
   \<and> extractCodeFromResponse crlf_reply = \<lparr>code = crlf_reply, explanation = None\<rparr>"
  by code_simp

theorem extractCodeFromResponse_first_block_witness:
  "hasRecognisedBlock example_reply
   \<and> (\<exists>pre tag body post. firstRecognisedBlock example_reply pre tag body post)
   \<and> extractCodeFromResponse example_reply
       = \<lparr>code = ''const a=1;'', explanation = Some ''This sets a.''\<rparr>"
proof -
  have "example_reply = [] @ recognisedBlock ''js'' ''const a=1;'' @ (nl @ ''This sets a.'')"
    by (simp add: example_reply_def recognisedBlock_def)
  moreover have "list_all isWordChar ''js''" by (simp add: isWordChar_def)
  ultimately have h: "hasRecognisedBlock example_reply" unfolding hasRecognisedBlock_def by blast
  have e: "extractCodeFromResponse example_reply
       = \<lparr>code = ''const a=1;'', explanation = Some ''This sets a.''\<rparr>"
    by code_simp
  from h e extractCodeFromResponse_first_block [of example_reply] show ?thesis by blast
qed

section \<open>The Go tools\<close>

lemma contains_iff: "contains slice item \<longleftrightarrow> item \<in> set slice"
  by (induction slice) auto

lemma collectFeatures_eq:
  "collectFeatures tmpl ct feats (imps, valid) =
     (imps @ map (\<lambda>f. ''import '' @ dq @ ''@openzeppelin/contracts/token/'' @ ct
                        @ ''/extensions/'' @ ct @ f @ ''.sol'' @ dq @ '';'')
               (filter (\<lambda>f. f \<in> set (Features tmpl)) feats),
      valid @ filter (\<lambda>f. f \<in> set (Features tmpl)) feats)"
  by (induction feats arbitrary: imps valid) (auto simp: contains_iff)

lemma ToLower_ERC20: "strings_ToLower ''ERC20'' = ''erc20''"
  by code_simp

lemma audit_score_formula:
  "\<exists>d. SecurityAuditTool_Execute params =
        \<lparr>Success = True, Data = AuditData d, Error = [], Metadata = []\<rparr>
     \<and> score d = max 0 (100 - 20 * int (length (issues d)))"
  by (simp add: SecurityAuditTool_Execute_def Let_def max_def)

text \<open>
  Claim C6. On Solidity code (the language parameter is \<^verbatim>\<open>solidity\<close>, or absent, empty
  or no string, which defaults to it) in which \<^verbatim>\<open>.call{value:\<close> occurs and none of
  \<^verbatim>\<open>tx.origin\<close>, \<^verbatim>\<open>block.timestamp\<close>, \<^verbatim>\<open>delegatecall\<close> does, the security audit returns
  success with the single finding \<^verbatim>\<open>reentrancy\<close> of severity \<^verbatim>\<open>high\<close> and the score 80;
  on code with none of the five trigger texts it returns no finding and the score 100;
  and its score is always \<open>max 0 (100 - 20 * findings)\<close>.
\<close>

theorem SecurityAuditTool_findings_and_score:
  assumes src: "params ''code'' = Some (GoString src)"
      and lang: "assertString (params ''language'') = []
                 \<or> assertString (params ''language'') = ''solidity''"
  shows "(strings_Contains src ''.call{value:'' \<and> \<not> strings_Contains src ''tx.origin''
            \<and> \<not> strings_Contains src ''block.timestamp''
            \<and> \<not> strings_Contains src ''delegatecall''
          \<longrightarrow> SecurityAuditTool_Execute params =
                \<lparr>Success = True,
                 Data = AuditData
                   \<lparr>issues = [\<lparr>issue_type = ''reentrancy'', severity = ''high'',
                                 message = ''Potential reentrancy vulnerability detected''\<rparr>],
                    score = 80,
                    recommendations =
                      [''Use checks-effects-interactions pattern or ReentrancyGuard'']\<rparr>,
                 Error = [], Metadata = []\<rparr>)
       \<and> (\<not> strings_Contains src ''call.value'' \<and> \<not> strings_Contains src ''.call{value:''
            \<and> \<not> strings_Contains src ''tx.origin''
            \<and> \<not> strings_Contains src ''block.timestamp''
            \<and> \<not> strings_Contains src ''delegatecall''
          \<longrightarrow> SecurityAuditTool_Execute params =
                \<lparr>Success = True,
                 Data = AuditData \<lparr>issues = [], score = 100, recommendations = []\<rparr>,
                 Error = [], Metadata = []\<rparr>)
       \<and> (\<exists>d. SecurityAuditTool_Execute params =
                 \<lparr>Success = True, Data = AuditData d, Error = [], Metadata = []\<rparr>
              \<and> score d = max 0 (100 - 20 * int (length (issues d))))"
proof -
  have c: "assertString (params ''code'') = src" using src by (simp add: assertString_def)
  have run: "SecurityAuditTool_Execute params =
       \<lparr>Success = True,
        Data = AuditData
          \<lparr>issues = scanSolidity src,
           score = (if 100 - int (length (scanSolidity src)) * 20 < 0 then 0
                    else 100 - int (length (scanSolidity src)) * 20),
           recommendations = getSecurityRecommendations (scanSolidity src)\<rparr>,
        Error = [], Metadata = []\<rparr>"
    using lang by (auto simp: SecurityAuditTool_Execute_def Let_def c)
  have one: "strings_Contains src ''.call{value:'' \<and> \<not> strings_Contains src ''tx.origin''
            \<and> \<not> strings_Contains src ''block.timestamp''
            \<and> \<not> strings_Contains src ''delegatecall''
         \<Longrightarrow> scanSolidity src = [reentrancy_issue]"
    by (simp add: scanSolidity_def)
  have none: "\<not> strings_Contains src ''call.value'' \<and> \<not> strings_Contains src ''.call{value:''
            \<and> \<not> strings_Contains src ''tx.origin''
            \<and> \<not> strings_Contains src ''block.timestamp''
            \<and> \<not> strings_Contains src ''delegatecall''
         \<Longrightarrow> scanSolidity src = []"
    by (simp add: scanSolidity_def)
  show ?thesis
    using audit_score_formula [of params] one none
    by (auto simp: run reentrancy_issue_def)
qed

theorem SecurityAuditTool_findings_and_score_witness:
  "SecurityAuditTool_Execute
     [''code'' \<mapsto> GoString ''to.call{value: amount}()'', ''language'' \<mapsto> GoString ''solidity'']
   = \<lparr>Success = True,
      Data = AuditData
        \<lparr>issues = [\<lparr>issue_type = ''reentrancy'', severity = ''high'',
                      message = ''Potential reentrancy vulnerability detected''\<rparr>],
         score = 80,
         recommendations = [''Use checks-effects-interactions pattern or ReentrancyGuard'']\<rparr>,
      Error = [], Metadata = []\<rparr>
   \<and> SecurityAuditTool_Execute [''code'' \<mapsto> GoString ''uint256 total;'']
   = \<lparr>Success = True,
      Data = AuditData \<lparr>issues = [], score = 100, recommendations = []\<rparr>,
      Error = [], Metadata = []\<rparr>"
proof -
  let ?p = "[''code'' \<mapsto> GoString ''to.call{value: amount}()'',
             ''language'' \<mapsto> GoString ''solidity'']"
  let ?q = "[''code'' \<mapsto> GoString ''uint256 total;'']"
  have p1: "?p ''code'' = Some (GoString ''to.call{value: amount}()'')" by simp
  have p2: "assertString (?p ''language'') = [] \<or> assertString (?p ''language'') = ''solidity''"
    by (simp add: assertString_def)
  have q1: "?q ''code'' = Some (GoString ''uint256 total;'')" by simp
  have q2: "assertString (?q ''language'') = [] \<or> assertString (?q ''language'') = ''solidity''"
    by (simp add: assertString_def)
  have hit: "strings_Contains ''to.call{value: amount}()'' ''.call{value:''
      \<and> \<not> strings_Contains ''to.call{value: amount}()'' ''tx.origin''
      \<and> \<not> strings_Contains ''to.call{value: amount}()'' ''block.timestamp''
      \<and> \<not> strings_Contains ''to.call{value: amount}()'' ''delegatecall''"
    by simp
  have clean: "\<not> strings_Contains ''uint256 total;'' ''call.value''
      \<and> \<not> strings_Contains ''uint256 total;'' ''.call{value:''
      \<and> \<not> strings_Contains ''uint256 total;'' ''tx.origin''
      \<and> \<not> strings_Contains ''uint256 total;'' ''block.timestamp''
      \<and> \<not> strings_Contains ''uint256 total;'' ''delegatecall''"
    by simp
  from SecurityAuditTool_findings_and_score [OF p1 p2] hit
       SecurityAuditTool_findings_and_score [OF q1 q2] clean
  show ?thesis by blast
qed

text \<open>
  Claim C10, as the code has it. When the language parameter is a non-empty string other
  than \<^verbatim>\<open>solidity\<close>, the security audit returns success with no issue and the score
  100, whatever the code contains. A language parameter that is the empty string,
  absent, or a value that is no string is read as the empty string and replaced by
  \<^verbatim>\<open>solidity\<close>: the audit then does what it does for \<^verbatim>\<open>solidity\<close>.
\<close>

theorem SecurityAuditTool_other_language_clean:
  "(params ''language'' = Some (GoString l) \<and> l \<noteq> [] \<and> l \<noteq> ''solidity''
      \<longrightarrow> SecurityAuditTool_Execute params =
            \<lparr>Success = True,
             Data = AuditData \<lparr>issues = [], score = 100, recommendations = []\<rparr>,
             Error = [], Metadata = []\<rparr>)
   \<and> (params ''language'' = Some (GoString [])
        \<or> (\<forall>s. params ''language'' \<noteq> Some (GoString s))
      \<longrightarrow> SecurityAuditTool_Execute params =
            SecurityAuditTool_Execute (params(''language'' \<mapsto> GoString ''solidity'')))"
proof (intro conjI impI)
  assume "params ''language'' = Some (GoString l) \<and> l \<noteq> [] \<and> l \<noteq> ''solidity''"
  then show "SecurityAuditTool_Execute params =
            \<lparr>Success = True,
             Data = AuditData \<lparr>issues = [], score = 100, recommendations = []\<rparr>,
             Error = [], Metadata = []\<rparr>"
    by (simp add: SecurityAuditTool_Execute_def assertString_def Let_def)
next
  assume "params ''language'' = Some (GoString [])
        \<or> (\<forall>s. params ''language'' \<noteq> Some (GoString s))"
  then have "assertString (params ''language'') = []"
    by (auto simp: assertString_def split: option.splits go_value.splits)
  then show "SecurityAuditTool_Execute params =
            SecurityAuditTool_Execute (params(''language'' \<mapsto> GoString ''solidity''))"
    by (simp add: SecurityAuditTool_Execute_def assertString_def Let_def)
qed

text \<open>The claim as stated fails: the language value \<^verbatim>\<open>5\<close> is present, not empty and
  other than \<^verbatim>\<open>solidity\<close>, and the code is scanned as Solidity.\<close>

theorem SecurityAuditTool_nonstring_language_scans:
  "SecurityAuditTool_Execute
     [''code'' \<mapsto> GoString ''to.call{value: amount}()'', ''language'' \<mapsto> GoInt 5]
   = \<lparr>Success = True,
      Data = AuditData
        \<lparr>issues = [\<lparr>issue_type = ''reentrancy'', severity = ''high'',
                      message = ''Potential reentrancy vulnerability detected''\<rparr>],
         score = 80,
         recommendations = [''Use checks-effects-interactions pattern or ReentrancyGuard'']\<rparr>,
      Error = [], Metadata = []\<rparr>"
  by code_simp

theorem SecurityAuditTool_other_language_clean_witness:
  "SecurityAuditTool_Execute
     [''code'' \<mapsto> GoString ''tx.origin delegatecall block.timestamp x.call{value: 1}()'',
      ''language'' \<mapsto> GoString ''rust'']
   = \<lparr>Success = True,
      Data = AuditData \<lparr>issues = [], score = 100, recommendations = []\<rparr>,
      Error = [], Metadata = []\<rparr>
   \<and> SecurityAuditTool_Execute [''code'' \<mapsto> GoString ''tx.origin'', ''language'' \<mapsto> GoInt 5]
     = SecurityAuditTool_Execute
         [''code'' \<mapsto> GoString ''tx.origin'', ''language'' \<mapsto> GoString ''solidity'']"
  using SecurityAuditTool_other_language_clean
          [of "[''code'' \<mapsto> GoString ''tx.origin delegatecall block.timestamp x.call{value: 1}()'',
                ''language'' \<mapsto> GoString ''rust'']" "''rust''"]
        SecurityAuditTool_other_language_clean
          [of "[''code'' \<mapsto> GoString ''tx.origin'', ''language'' \<mapsto> GoInt 5]"]
  by simp

text \<open>
  Claim C9. When \<^verbatim>\<open>contract_type\<close> is absent, the empty string or no string, the
  OpenZeppelin tool does not fail with an unknown type: it takes \<^verbatim>\<open>ERC20\<close> and returns
  success with the ERC20 template (and the imports and features of the ERC20 entry).
\<close>

theorem OpenZeppelinTool_defaults_to_ERC20:
  assumes "params ''contract_type'' = None \<or> params ''contract_type'' = Some (GoString [])
           \<or> (\<forall>s. params ''contract_type'' \<noteq> Some (GoString s))"
  shows "Execute NewOpenZeppelinTool params =
           \<lparr>Success = True,
            Data = OZData
              \<lparr>contract_type = ''ERC20'',
               import_lines =
                 (''import '' @ dq @ ''@openzeppelin/contracts/token/ERC20/ERC20.sol'' @ dq @ '';'')
                 # map (\<lambda>f. ''import '' @ dq
                              @ ''@openzeppelin/contracts/token/ERC20/extensions/ERC20'' @ f
                              @ ''.sol'' @ dq @ '';'')
                     (filter (\<lambda>f. f \<in> set (Features ERC20_contract))
                        (assertStrings (params ''features''))),
               features =
                 filter (\<lambda>f. f \<in> set (Features ERC20_contract))
                   (assertStrings (params ''features'')),
               template = ERC20_Template,
               documentation = ''https://docs.openzeppelin.com/contracts/4.x/api/token/erc20''\<rparr>,
            Error = [], Metadata = []\<rparr>"
proof -
  have "assertString (params ''contract_type'') = []"
    using assms by (auto simp: assertString_def split: option.splits go_value.splits)
  then show ?thesis
    by (simp add: NewOpenZeppelinTool_def OpenZeppelinTool_Execute_def Let_def contracts_def
        collectFeatures_eq ToLower_ERC20)
      (simp add: ERC20_contract_def)
qed

theorem OpenZeppelinTool_defaults_to_ERC20_witness:
  "Execute NewOpenZeppelinTool
     [''contract_type'' \<mapsto> GoInt 3, ''features'' \<mapsto> GoStrings [''Mintable'', ''Foo'']]
   = \<lparr>Success = True,
      Data = OZData
        \<lparr>contract_type = ''ERC20'',
         import_lines =
           [''import '' @ dq @ ''@openzeppelin/contracts/token/ERC20/ERC20.sol'' @ dq @ '';'',
            ''import '' @ dq
              @ ''@openzeppelin/contracts/token/ERC20/extensions/ERC20Mintable.sol'' @ dq @ '';''],
         features = [''Mintable''],
         template = ERC20_Template,
         documentation = ''https://docs.openzeppelin.com/contracts/4.x/api/token/erc20''\<rparr>,
      Error = [], Metadata = []\<rparr>"
  using OpenZeppelinTool_defaults_to_ERC20
          [of "[''contract_type'' \<mapsto> GoInt 3, ''features'' \<mapsto> GoStrings [''Mintable'', ''Foo'']]"]
  by (simp add: assertStrings_def ERC20_contract_def)

section \<open>The registries and the facade\<close>

lemma runTools_used:
  "runTools c p tools (used, res) = Inr (used', res') \<Longrightarrow>
     used' = used @ filter (\<lambda>n. case mcpTools c n of
                                   None \<Rightarrow> False
                                 | Some tool \<Rightarrow>
                                     (case execute tool (JObj [(''query'', JStr p)]) of
                                        Inl e \<Rightarrow> False
                                      | Inr v \<Rightarrow> truthy v)) tools"
proof (induction tools arbitrary: used res)
  case Nil
  then show ?case by simp
next
  case (Cons n tools)
  show ?case
  proof (cases "mcpTools c n")
    case None
    with Cons.prems have "runTools c p tools (used, res) = Inr (used', res')" by simp
    from Cons.IH [OF this] None show ?thesis by simp
  next
    case (Some tool)
    show ?thesis
    proof (cases "execute tool (JObj [(''query'', JStr p)])")
      case (Inl e)
      with Some Cons.prems show ?thesis by (simp add: useTool_def)
    next
      case (Inr v)
      show ?thesis
      proof (cases "truthy v")
        case True
        with Some Inr Cons.prems
        have "runTools c p tools (used @ [n], res @ [v]) = Inr (used', res')"
          by (simp add: useTool_def)
        from Cons.IH [OF this] Some Inr True show ?thesis by simp
      next
        case False
        with Some Inr Cons.prems
        have "runTools c p tools (used, res) = Inr (used', res')"
          by (simp add: useTool_def)
        from Cons.IH [OF this] Some Inr False show ?thesis by simp
      qed
    qed
  qed
qed

lemma runTools_unregistered:
  "runTools c p tools acc = runTools c p (filter (\<lambda>n. mcpTools c n \<noteq> None) tools) acc"
proof (induction tools arbitrary: acc)
  case Nil
  then show ?case by simp
next
  case (Cons n tools)
  obtain used res where acc: "acc = (used, res)" by (cases acc)
  show ?case
  proof (cases "mcpTools c n")
    case None
    then show ?thesis using Cons.IH [of acc] by (simp add: acc)
  next
    case (Some tool)
    then show ?thesis using Cons.IH by (auto simp: acc split: sum.splits)
  qed
qed

lemma generate_replies:
  assumes "\<forall>req. post req = Inr content"
  shows "generate rt post c opts =
           Inr \<lparr>code = code (extractCodeFromResponse content),
                explanation =
                  (if js_or (mode opts) (js_or (output_style (config c)) ''production'')
                        = ''educational''
                   then explanation (extractCodeFromResponse content) else None),
                result_language = js_or (language opts) ''javascript'',
                toolsUsed = []\<rparr>"
  using assms by (simp add: generate_def LLMProvider_generate_def Let_def)

lemma example_tools:
  "mcpTools example_craite ''audit'' = Some failingTool"
  "mcpTools example_craite ''docs'' = Some (stubTool ''docs'')"
  "mcpTools example_craite ''missing'' = None"
  by (simp_all add: example_craite_def registerTool_def failingTool_def)

text \<open>
  Claim C1, as the code has it. \<open>generateWithTools\<close> never reads the \<^verbatim>\<open>success\<close> field: it
  tests the value \<^verbatim>\<open>execute\<close> resolved to for truthiness. When the call returns,
  \<open>toolsUsed\<close> holds, in request order, exactly the requested names that are registered
  and whose \<^verbatim>\<open>execute\<close> resolved to a truthy value; every object is truthy, also one
  with \<^verbatim>\<open>success: false\<close>.
\<close>

theorem generateWithTools_records_truthy_results:
  assumes "generateWithTools rt post c options tools = Inr r"
  shows "toolsUsed r =
           filter (\<lambda>n. case mcpTools c n of
                          None \<Rightarrow> False
                        | Some tool \<Rightarrow>
                            (case execute tool (JObj [(''query'', JStr (prompt options))]) of
                               Inl e \<Rightarrow> False
                             | Inr v \<Rightarrow> truthy v)) tools"
proof -
  from assms obtain used res where
    run: "runTools c (prompt options) tools ([], []) = Inr (used, res)" and "toolsUsed r = used"
    by (auto simp: generateWithTools_def Let_def split: sum.splits prod.splits)
  with runTools_used [OF run] show ?thesis by simp
qed

text \<open>The claim as stated fails: a registered tool whose result has \<^verbatim>\<open>success: false\<close> is
  recorded in \<open>toolsUsed\<close>.\<close>

theorem generateWithTools_records_failed_tool:
  "execute failingTool (JObj [(''query'', JStr ''Create a vault'')])
     = Inr (JObj [(''success'', JBool False), (''error'', JStr ''scan failed'')])
   \<and> generateWithTools example_runtime (\<lambda>req. Inr ''contract Vault {}'') example_craite
       example_options [''audit'']
     = Inr \<lparr>code = ''contract Vault {}'', explanation = None, result_language = ''solidity'',
            toolsUsed = [''audit'']\<rparr>"
  by code_simp

theorem generateWithTools_records_truthy_results_witness:
  "generateWithTools example_runtime (\<lambda>req. Inr ''contract Vault {}'') example_craite
       example_options [''missing'', ''audit'', ''docs'']
     = Inr \<lparr>code = ''contract Vault {}'', explanation = None, result_language = ''solidity'',
            toolsUsed = [''audit'', ''docs'']\<rparr>
   \<and> [''audit'', ''docs'']
     = filter (\<lambda>n. case mcpTools example_craite n of
                      None \<Rightarrow> False
                    | Some tool \<Rightarrow>
                        (case execute tool (JObj [(''query'', JStr (prompt example_options))]) of
                           Inl e \<Rightarrow> False
                         | Inr v \<Rightarrow> truthy v)) [''missing'', ''audit'', ''docs'']"
proof -
  have run: "generateWithTools example_runtime (\<lambda>req. Inr ''contract Vault {}'') example_craite
       example_options [''missing'', ''audit'', ''docs'']
     = Inr \<lparr>code = ''contract Vault {}'', explanation = None, result_language = ''solidity'',
            toolsUsed = [''audit'', ''docs'']\<rparr>"
    by code_simp
  from generateWithTools_records_truthy_results [OF run] run show ?thesis by simp
qed

text \<open>
  Claim C2, as the code has it. For a name that is not registered, the Go registry's
  \<^verbatim>\<open>Execute\<close> returns the failure result with the message \<^verbatim>\<open>Tool not found: <name>\<close>
  (which contains \<^verbatim>\<open>not found\<close>) and does not fail; the TypeScript facade's
  \<^verbatim>\<open>useTool\<close> throws an \<^verbatim>\<open>Error\<close> with the message \<^verbatim>\<open>MCP tool not found: <name>\<close>.
\<close>

theorem unregistered_tool_result_or_throw:
  "(Get r toolName = None \<longrightarrow>
      Registry_Execute r toolName params =
        \<lparr>Success = False, Data = NoData, Error = ''Tool not found: '' @ toolName,
         Metadata = []\<rparr>
      \<and> strings_Contains (''Tool not found: '' @ toolName) ''not found'')
   \<and> (mcpTools c toolName = None \<longrightarrow>
        useTool c toolName jsparams = Inl (JsError (''MCP tool not found: '' @ toolName)))"
proof -
  have "''Tool not found: '' @ toolName = ''Tool '' @ ''not found'' @ ('': '' @ toolName)"
    by simp
  then have "strings_Contains (''Tool not found: '' @ toolName) ''not found''"
    unfolding strings_Contains_iff by blast
  then show ?thesis by (simp add: Registry_Execute_def useTool_def)
qed

text \<open>The claim as stated fails: for an unregistered name \<^verbatim>\<open>useTool\<close> throws.\<close>

theorem useTool_unregistered_throws:
  "useTool example_craite ''nonexistent'' (JObj [])
     = Inl (JsError ''MCP tool not found: nonexistent'')"
  by (simp add: useTool_def example_craite_def registerTool_def failingTool_def)

theorem unregistered_tool_result_or_throw_witness:
  "Registry_Execute NewMCPToolRegistry ''nonexistent'' Map.empty =
     \<lparr>Success = False, Data = NoData, Error = ''Tool not found: nonexistent'', Metadata = []\<rparr>
   \<and> strings_Contains ''Tool not found: nonexistent'' ''not found''
   \<and> useTool example_craite ''missing'' (JObj [(''query'', JStr ''q'')])
       = Inl (JsError ''MCP tool not found: missing'')"
proof -
  have g: "Get NewMCPToolRegistry ''nonexistent'' = None"
    by (simp add: Get_def NewMCPToolRegistry_def Register_def NewOpenZeppelinTool_def
        NewSecurityAuditTool_def NewGasOptimizationTool_def)
  from unregistered_tool_result_or_throw
         [of NewMCPToolRegistry "''nonexistent''" Map.empty example_craite
             "JObj [(''query'', JStr ''q'')]"]
       unregistered_tool_result_or_throw
         [of NewMCPToolRegistry "''missing''" Map.empty example_craite
             "JObj [(''query'', JStr ''q'')]"]
       g example_tools(3)
  show ?thesis by simp
qed

lemma LLMProvider_generate_mode:
  assumes "js_or x ''production'' \<noteq> ''educational''"
  shows "LLMProvider_generate post p (opts\<lparr>mode := x, prompt := q\<rparr>)
           = LLMProvider_generate post p (opts\<lparr>mode := Some ''production'', prompt := q\<rparr>)"
proof -
  have "js_or (Some ''production'') ''production'' = ''production''"
    by (simp add: js_or_def)
  moreover have "formatPrompt q (js_or x ''production'') = formatPrompt q ''production''"
    using assms by (simp add: formatPrompt_def)
  ultimately show ?thesis by (simp add: LLMProvider_generate_def Let_def)
qed

lemma example_craite_constructed:
  "map_sum id (\<lambda>c. registerTool c failingTool) (new_CRAITE example_config) = Inr example_craite"
  by (simp add: new_CRAITE_def initializeLLMProvider_def example_config_def example_craite_def
      js_or_def)

text \<open>
  Claim C3, as the code has it. When the request's mode is a non-empty string other than
  \<^verbatim>\<open>production\<close> and \<^verbatim>\<open>educational\<close> (and names no member every object inherits),
  \<open>generate\<close> treats it as production in two places: the provider formats the message
  with its production instruction, and the explanation of the result is cleared. It
  does not in a third: the facade prepends no mode instruction to the prompt, where for
  \<^verbatim>\<open>production\<close> it prepends its production instruction. The two runs are the same
  provider call on these two prompts. When the mode is absent or empty and the
  configured output style is absent, empty or \<^verbatim>\<open>production\<close>, the run is the production
  run.
\<close>

theorem generate_unrecognized_mode:
  assumes "m \<noteq> []" and "m \<noteq> ''production''" and "m \<noteq> ''educational''"
      and "inherited rt m = None"
  shows "generate rt post c (opts\<lparr>mode := Some m\<rparr>) =
           (case LLMProvider_generate post (llmProvider c)
                   (opts\<lparr>mode := Some ''production'', prompt := nl @ nl @ prompt opts\<rparr>) of
              Inl e \<Rightarrow> Inl e
            | Inr res \<Rightarrow>
                Inr \<lparr>code = code res, explanation = None,
                     result_language = js_or (language opts) ''javascript'',
                     toolsUsed = []\<rparr>)
       \<and> generate rt post c (opts\<lparr>mode := Some ''production''\<rparr>) =
           (case LLMProvider_generate post (llmProvider c)
                   (opts\<lparr>mode := Some ''production'',
                         prompt :=
                           ''Generate production-ready code with minimal comments. Focus on efficiency and best practices.''
                             @ nl @ nl @ prompt opts\<rparr>) of
              Inl e \<Rightarrow> Inl e
            | Inr res \<Rightarrow>
                Inr \<lparr>code = code res, explanation = None,
                     result_language = js_or (language opts) ''javascript'',
                     toolsUsed = []\<rparr>)
       \<and> ((x = None \<or> x = Some [])
            \<and> js_or (output_style (config c)) ''production'' = ''production''
          \<longrightarrow> generate rt post c (opts\<lparr>mode := x\<rparr>)
                = generate rt post c (opts\<lparr>mode := Some ''production''\<rparr>))"
proof -
  have ep: "enhancePromptWithMode rt (prompt opts) m = nl @ nl @ prompt opts"
    using assms by (simp add: enhancePromptWithMode_def modeInstructions_def js_or_def)
  have epP: "enhancePromptWithMode rt (prompt opts) ''production'' =
      ''Generate production-ready code with minimal comments. Focus on efficiency and best practices.''
        @ nl @ nl @ prompt opts"
    by (simp add: enhancePromptWithMode_def modeInstructions_def js_or_def)
  have m: "js_or (Some m) d = m" for d
    using assms(1) by (simp add: js_or_def)
  have pr: "js_or (Some ''production'') d = ''production''" for d
    by (simp add: js_or_def)
  have g1: "generate rt post c (opts\<lparr>mode := Some m\<rparr>) =
           (case LLMProvider_generate post (llmProvider c)
                   (opts\<lparr>mode := Some m, prompt := nl @ nl @ prompt opts\<rparr>) of
              Inl e \<Rightarrow> Inl e
            | Inr res \<Rightarrow>
                Inr \<lparr>code = code res, explanation = None,
                     result_language = js_or (language opts) ''javascript'',
                     toolsUsed = []\<rparr>)"
    using assms(3) by (simp add: generate_def Let_def m ep cong: sum.case_cong)
  have g2: "generate rt post c (opts\<lparr>mode := Some ''production''\<rparr>) =
           (case LLMProvider_generate post (llmProvider c)
                   (opts\<lparr>mode := Some ''production'',
                         prompt :=
                           ''Generate production-ready code with minimal comments. Focus on efficiency and best practices.''
                             @ nl @ nl @ prompt opts\<rparr>) of
              Inl e \<Rightarrow> Inl e
            | Inr res \<Rightarrow>
                Inr \<lparr>code = code res, explanation = None,
                     result_language = js_or (language opts) ''javascript'',
                     toolsUsed = []\<rparr>)"
    by (simp add: generate_def Let_def pr epP cong: sum.case_cong)
  have g3: "generate rt post c (opts\<lparr>mode := x\<rparr>)
                = generate rt post c (opts\<lparr>mode := Some ''production''\<rparr>)"
    if x: "x = None \<or> x = Some []"
      and style: "js_or (output_style (config c)) ''production'' = ''production''"
  proof -
    have fx: "js_or x d = d" for d using x by (auto simp: js_or_def)
    have "js_or x ''production'' \<noteq> ''educational''" by (simp add: fx)
    from LLMProvider_generate_mode [OF this] show ?thesis
      by (simp add: generate_def Let_def fx pr style cong: sum.case_cong)
  qed
  have "js_or (Some m) ''production'' \<noteq> ''educational''" using assms(3) by (simp add: m)
  from LLMProvider_generate_mode [OF this] g3 show ?thesis
    unfolding g1 g2 by simp
qed

text \<open>The claim as stated fails: with an upstream that answers \<^verbatim>\<open>A\<close> when the facade's
  production instruction reaches it and \<^verbatim>\<open>B\<close> otherwise, the mode \<^verbatim>\<open>debug\<close> and the mode
  \<^verbatim>\<open>production\<close> give different results.\<close>

theorem generate_unrecognized_mode_differs_from_production:
  "generate example_runtime instruction_sensitive_upstream example_craite
       (example_options\<lparr>mode := Some ''debug''\<rparr>)
     = Inr \<lparr>code = ''B'', explanation = None, result_language = ''solidity'', toolsUsed = []\<rparr>
   \<and> generate example_runtime instruction_sensitive_upstream example_craite
       (example_options\<lparr>mode := Some ''production''\<rparr>)
     = Inr \<lparr>code = ''A'', explanation = None, result_language = ''solidity'', toolsUsed = []\<rparr>"
  by code_simp

theorem generate_unrecognized_mode_witness:
  "generate example_runtime instruction_sensitive_upstream example_craite
       (example_options\<lparr>mode := Some ''debug''\<rparr>)
     = (case LLMProvider_generate instruction_sensitive_upstream (llmProvider example_craite)
               (example_options
                  \<lparr>mode := Some ''production'', prompt := nl @ nl @ prompt example_options\<rparr>) of
          Inl e \<Rightarrow> Inl e
        | Inr res \<Rightarrow>
            Inr \<lparr>code = code res, explanation = None,
                 result_language = js_or (language example_options) ''javascript'',
                 toolsUsed = []\<rparr>)"
proof -
  have "''debug'' \<noteq> []" "''debug'' \<noteq> ''production''" "''debug'' \<noteq> ''educational''"
    "inherited example_runtime ''debug'' = None"
    by (simp_all add: example_runtime_def)
  from generate_unrecognized_mode [OF this] show ?thesis by blast
qed

text \<open>
  Claim C4, as the code has it. For a mode other than \<^verbatim>\<open>production\<close> and
  \<^verbatim>\<open>educational\<close> (that names no member every object inherits), every prompt and every
  list of tool results, the facade's \<open>enhancePromptWithMode\<close> composes the prompt with an
  empty instruction, which is what omitting the instruction gives; the provider's
  \<open>formatPrompt\<close> composes it with the production instruction, as for \<^verbatim>\<open>production\<close>.
  Neither throws: both are total functions on strings.
\<close>

theorem compose_unrecognized_mode:
  assumes "m \<noteq> ''production''" and "m \<noteq> ''educational''" and "inherited rt m = None"
  shows "enhancePromptWithMode rt (enhancePromptWithToolResults rt p toolResults) m
           = nl @ nl @ enhancePromptWithToolResults rt p toolResults
       \<and> formatPrompt p m = formatPrompt p ''production''
       \<and> formatPrompt p m
           = buildSystemPrompt @ nl @ nl
               @ ''Generate clean, production-ready code with minimal but essential comments.''
               @ nl @ nl @ ''User request: '' @ p"
  using assms
  by (simp add: enhancePromptWithMode_def modeInstructions_def formatPrompt_def js_or_def)

text \<open>The claim as stated fails: \<open>formatPrompt\<close> with the mode \<^verbatim>\<open>debug\<close> keeps an
  instruction, the production one; and \<open>enhancePromptWithMode\<close> with the mode
  \<^verbatim>\<open>constructor\<close> prints the inherited member as the instruction.\<close>

theorem formatPrompt_unrecognized_mode_keeps_instruction:
  "formatPrompt ''p'' ''debug''
     = buildSystemPrompt @ nl @ nl
         @ ''Generate clean, production-ready code with minimal but essential comments.''
         @ nl @ nl @ ''User request: p''
   \<and> formatPrompt ''p'' ''debug'' \<noteq> buildSystemPrompt @ nl @ nl @ nl @ nl @ ''User request: p''
   \<and> enhancePromptWithMode example_runtime ''p'' ''constructor''
       = ''function Object() { [native code] }'' @ nl @ nl @ ''p''"
  by (simp add: formatPrompt_def enhancePromptWithMode_def modeInstructions_def js_or_def
      example_runtime_def nl_def)

theorem compose_unrecognized_mode_witness:
  "enhancePromptWithMode example_runtime
       (enhancePromptWithToolResults example_runtime ''p''
          [JObj [(''tool'', JStr ''docs''), (''data'', JObj [])]]) ''debug''
     = nl @ nl @ ''p'' @ nl @ nl @ ''Additional context from MCP tools:'' @ nl
         @ ''Tool: docs'' @ nl @ ''Result: {}''
   \<and> formatPrompt ''p'' ''debug'' = formatPrompt ''p'' ''production''"
proof -
  have "''debug'' \<noteq> ''production''" "''debug'' \<noteq> ''educational''"
    "inherited example_runtime ''debug'' = None"
    by (simp_all add: example_runtime_def)
  from compose_unrecognized_mode [OF this, of "''p''" "[JObj [(''tool'', JStr ''docs''), (''data'', JObj [])]]"]
  show ?thesis
    by (simp add: enhancePromptWithToolResults_def example_runtime_def example_String_def)
qed

text \<open>
  Claim C7, as the code has it. When the adapter replies with a text that contains a
  block of the form the expression recognises (a tag of word characters only, a line
  feed after the tag and a line feed before the closing backticks) followed by prose
  (text after the block that is not only white space), \<open>generate\<close> in
  \<^verbatim>\<open>educational\<close> mode returns a result whose explanation is present, and in
  \<^verbatim>\<open>production\<close> mode a result whose explanation is absent; in \<^verbatim>\<open>production\<close> mode
  the explanation is absent whatever the adapter returns.
\<close>

theorem generate_explanation_by_mode:
  assumes "\<forall>req. post req = Inr content"
      and "list_all isWordChar tag"
      and "content = pre @ recognisedBlock tag body @ prose"
      and "\<not> list_all isWhiteSpace prose"
  shows "(\<exists>r e. generate rt post c (opts\<lparr>mode := Some ''educational''\<rparr>) = Inr r
                 \<and> explanation r = Some e)
       \<and> (\<exists>r. generate rt post c (opts\<lparr>mode := Some ''production''\<rparr>) = Inr r
               \<and> explanation r = None)
       \<and> (\<forall>post' r. generate rt post' c (opts\<lparr>mode := Some ''production''\<rparr>) = Inr r
               \<longrightarrow> explanation r = None)"
proof (intro conjI allI impI)
  from explanation_after_block [OF assms(2,3,4)] obtain e
    where "explanation (extractCodeFromResponse content) = Some e" ..
  then show "\<exists>r e. generate rt post c (opts\<lparr>mode := Some ''educational''\<rparr>) = Inr r
                 \<and> explanation r = Some e"
    by (simp add: generate_replies [OF assms(1)] js_or_def)
next
  show "\<exists>r. generate rt post c (opts\<lparr>mode := Some ''production''\<rparr>) = Inr r
               \<and> explanation r = None"
    by (simp add: generate_replies [OF assms(1)] js_or_def)
next
  fix post' r
  assume "generate rt post' c (opts\<lparr>mode := Some ''production''\<rparr>) = Inr r"
  then show "explanation r = None"
    by (auto simp: generate_def js_or_def Let_def split: sum.splits)
qed

text \<open>The claim as stated fails: for an \<^verbatim>\<open>educational\<close> request whose reply is a fenced
  block tagged \<^verbatim>\<open>c++\<close> followed by prose, the explanation is absent and the whole
  reply is the \<open>code\<close>.\<close>

theorem generate_educational_unrecognised_fence:
  "generate example_runtime (\<lambda>req. Inr cpp_reply) example_craite
       (example_options\<lparr>mode := Some ''educational''\<rparr>)
     = Inr \<lparr>code = fence @ ''c++'' @ nl @ ''int x;'' @ nl @ fence @ nl @ ''This declares x.'',
            explanation = None, result_language = ''solidity'', toolsUsed = []\<rparr>"
  by code_simp

theorem generate_explanation_by_mode_witness:
  "generate example_runtime (\<lambda>req. Inr example_reply) example_craite
       (example_options\<lparr>mode := Some ''educational''\<rparr>)
     = Inr \<lparr>code = ''const a=1;'', explanation = Some ''This sets a.'',
            result_language = ''solidity'', toolsUsed = []\<rparr>
   \<and> (\<exists>r. generate example_runtime (\<lambda>req. Inr example_reply) example_craite
              (example_options\<lparr>mode := Some ''production''\<rparr>) = Inr r
           \<and> explanation r = None)"
proof -
  have 1: "\<forall>req. (\<lambda>req. Inr example_reply :: js_error + string) req = Inr example_reply" by simp
  have 2: "list_all isWordChar ''js''" by (simp add: isWordChar_def)
  have 3: "example_reply = [] @ recognisedBlock ''js'' ''const a=1;'' @ (nl @ ''This sets a.'')"
    by (simp add: example_reply_def recognisedBlock_def)
  have 4: "\<not> list_all isWhiteSpace (nl @ ''This sets a.'')"
    by (simp add: isWhiteSpace_def nl_def)
  have e: "generate example_runtime (\<lambda>req. Inr example_reply) example_craite
       (example_options\<lparr>mode := Some ''educational''\<rparr>)
     = Inr \<lparr>code = ''const a=1;'', explanation = Some ''This sets a.'',
            result_language = ''solidity'', toolsUsed = []\<rparr>"
    by code_simp
  from generate_explanation_by_mode [OF 1 2 3 4, of example_runtime example_craite example_options] e
  show ?thesis by blast
qed

text \<open>
  Claim C8. When the requested names are one registered name and one unregistered name,
  in either order, \<open>generateWithTools\<close> does exactly what it does for the registered
  name alone: the unregistered name has no effect, so it cannot make the call fail. A
  returned \<open>toolsUsed\<close> holds no name but the registered one; and when the registered
  tool's \<^verbatim>\<open>execute\<close> resolves and the adapter replies, the call returns a result.
\<close>

theorem generateWithTools_skips_unregistered_name:
  assumes "mcpTools c valid = Some tool" and "mcpTools c invalid = None"
      and "tools = [valid, invalid] \<or> tools = [invalid, valid]"
  shows "generateWithTools rt post c options tools = generateWithTools rt post c options [valid]
       \<and> (\<forall>r. generateWithTools rt post c options tools = Inr r
              \<longrightarrow> set (toolsUsed r) \<subseteq> {valid})
       \<and> (\<forall>v content.
             execute tool (JObj [(''query'', JStr (prompt options))]) = Inr v
               \<and> (\<forall>req. post req = Inr content)
             \<longrightarrow> (\<exists>r. generateWithTools rt post c options tools = Inr r
                      \<and> toolsUsed r = (if truthy v then [valid] else [])))"
proof -
  have f: "filter (\<lambda>n. mcpTools c n \<noteq> None) tools = [valid]"
    using assms by auto
  have "runTools c (prompt options) tools ([], [])
          = runTools c (prompt options) [valid] ([], [])"
    using runTools_unregistered [of c "prompt options" tools "([], [])"] f by simp
  then have same: "generateWithTools rt post c options tools
                = generateWithTools rt post c options [valid]"
    by (simp add: generateWithTools_def)
  have only: "set (toolsUsed r) \<subseteq> {valid}"
    if "generateWithTools rt post c options tools = Inr r" for r
    using runTools_used [of c "prompt options" "[valid]" "[]" "[]"] that
    unfolding same
    by (auto simp: generateWithTools_def Let_def split: sum.splits prod.splits if_splits)
  have ok: "\<exists>r. generateWithTools rt post c options tools = Inr r
                \<and> toolsUsed r = (if truthy v then [valid] else [])"
    if "execute tool (JObj [(''query'', JStr (prompt options))]) = Inr v"
      and "\<forall>req. post req = Inr content" for v content
    unfolding same using that(1) assms(1)
    by (simp add: generateWithTools_def useTool_def Let_def generate_replies [OF that(2)])
  from same only ok show ?thesis by blast
qed

theorem generateWithTools_skips_unregistered_name_witness:
  "generateWithTools example_runtime (\<lambda>req. Inr example_reply) example_craite example_options
       [''docs'', ''missing'']
     = Inr \<lparr>code = ''const a=1;'', explanation = None, result_language = ''solidity'',
            toolsUsed = [''docs'']\<rparr>"
proof -
  have e: "generateWithTools example_runtime (\<lambda>req. Inr example_reply) example_craite
       example_options [''docs'']
     = Inr \<lparr>code = ''const a=1;'', explanation = None, result_language = ''solidity'',
            toolsUsed = [''docs'']\<rparr>"
    by code_simp
  have t: "[''docs'', ''missing''] = [''docs'', ''missing''] \<or> [''docs'', ''missing''] = [''missing'', ''docs'']"
    by simp
  from generateWithTools_skips_unregistered_name [OF example_tools(2) example_tools(3) t] e
  show ?thesis by simp
qed

end
